theory Spec2Isabelle
  imports Complex_Main "HOL-Library.Sublist"
begin

section \<open>Values of the experiment script\<close>

text \<open>
  The script \<^verbatim>\<open>riemann/embed_experiment.py\<close> wires external libraries together. Exceptions
  are values: \<open>RecursionError\<close> and \<open>AttributeError\<close> are the two that the script's own
  statements can raise (unbounded recursion, attribute access on \<open>None\<close>); \<open>Raised\<close>
  is an exception coming out of a library call.
\<close>

datatype exn = RecursionError | AttributeError | Raised string

text \<open>A hyperparameter is a Python number: the literals of the script are ints and floats.\<close>

datatype number = IntNum int | FloatNum real

datatype ndarray = NdArray "int list list"

text \<open>
  The manifolds of \<^verbatim>\<open>geoopt\<close> that the script constructs. \<open>Product\<close> holds the list it is
  given; an entry of that list is \<open>None\<close> where the builder returned \<open>None\<close>.
\<close>

datatype manifold =
    Euclidean
  | PoincareBall
  | Sphere
  | Product "manifold option list" ndarray

record datetime =
  year :: nat
  month :: nat
  day :: nat
  hour :: nat
  minute :: nat
  second :: nat

text \<open>Lines 51 to 64 of \<^verbatim>\<open>config\<close>: the entries a run may preset.\<close>

record hyper =
  n_epochs :: int
  dimension :: int
  manifold_name :: string
  eval_every :: int
  gpu :: int
  train_threads :: int
  submanifold_names :: "string list"
  double_precision :: bool
  submanifold_shapes :: "int list list"
  learning_rate :: number
  sparse :: bool
  burnin_num :: int
  burnin_lr_mult :: number
  burnin_neg_multiplier :: number

text \<open>The whole configuration: the entries above, \<^verbatim>\<open>now\<close> and \<^verbatim>\<open>tensorboard_dir\<close>.\<close>

record config = hyper +
  now :: datetime
  tensorboard_dir :: string

section \<open>The manifold builder\<close>

text \<open>
  A list comprehension over a call that may raise: the elements are computed from left
  to right and the first exception ends the comprehension.
\<close>

fun map_result :: "('a \<Rightarrow> exn + 'b) \<Rightarrow> 'a list \<Rightarrow> exn + 'b list" where
  "map_result f [] = Inr []"
| "map_result f (x # xs) =
     (case f x of
        Inl e \<Rightarrow> Inl e
      | Inr y \<Rightarrow> (case map_result f xs of Inl e \<Rightarrow> Inl e | Inr ys \<Rightarrow> Inr (y # ys)))"

text \<open>
  The two calls of line 82 into the libraries: \<^verbatim>\<open>np.array\<close>, which returns an array (with
  the entries as numpy converted them) or raises, and the constructor \<^verbatim>\<open>Product\<close>, which
  may raise.
\<close>

record library =
  np_array :: "int list list \<Rightarrow> exn + ndarray"
  product_raises :: "manifold option list \<Rightarrow> ndarray \<Rightarrow> exn option"

text \<open>
  \<^verbatim>\<open>get_embed_manifold\<close> (lines 71 to 83) is decorated with \<^verbatim>\<open>@ex.capture\<close>: an argument
  that the caller does not pass is taken from the configuration (a passed argument wins
  over the configuration, the configuration over the default of the signature). The
  three optional arguments below are what the caller passed. The recursive call of line 81
  passes the name only, so it reads \<^verbatim>\<open>submanifold_names\<close> from the configuration again.
  On line 82 the list of submanifolds is built first, then the array, then the product.

  The second argument is the number of nested calls Python still allows (its recursion
  limit): at \<open>0\<close> the call raises \<open>RecursionError\<close>.
\<close>

fun get_embed_manifold ::
  "'l library_scheme \<Rightarrow> nat \<Rightarrow> 'a config_scheme \<Rightarrow> string option \<Rightarrow> string list option
     \<Rightarrow> int list list option \<Rightarrow> exn + manifold option" where
  "get_embed_manifold lib 0 cfg arg_name arg_names arg_shapes = Inl RecursionError"
| "get_embed_manifold lib (Suc depth) cfg arg_name arg_names arg_shapes =
     (let name = (case arg_name of Some n \<Rightarrow> n | None \<Rightarrow> manifold_name cfg);
          names = (case arg_names of Some ns \<Rightarrow> ns | None \<Rightarrow> submanifold_names cfg);
          shapes = (case arg_shapes of Some ss \<Rightarrow> ss | None \<Rightarrow> submanifold_shapes cfg)
      in if name = ''Euclidean'' then Inr (Some Euclidean)
         else if name = ''PoincareBall'' then Inr (Some PoincareBall)
         else if name = ''Sphere'' then Inr (Some Sphere)
         else if name = ''Product'' then
           (case map_result (\<lambda>n. get_embed_manifold lib depth cfg (Some n) None None) names of
              Inl e \<Rightarrow> Inl e
            | Inr submanifolds \<Rightarrow>
                (case np_array lib shapes of
                   Inl e \<Rightarrow> Inl e
                 | Inr array \<Rightarrow>
                     (case product_raises lib submanifolds array of
                        Some e \<Rightarrow> Inl e
                      | None \<Rightarrow> Inr (Some (Product submanifolds array)))))
         else Inr None)"

text \<open>What the builder returns for a name other than \<^verbatim>\<open>"Product"\<close>.\<close>

definition leaf_manifold :: "string \<Rightarrow> manifold option" where
  "leaf_manifold name =
     (if name = ''Euclidean'' then Some Euclidean
      else if name = ''PoincareBall'' then Some PoincareBall
      else if name = ''Sphere'' then Some Sphere
      else None)"



section \<open>Strings\<close>

text \<open>Python's \<^verbatim>\<open>str\<close> of an int, as an f-string field formats it: decimal digits, a minus sign.\<close>

fun str_nat :: "nat \<Rightarrow> string" where
  "str_nat n =
     (if n < 10 then [''0123456789'' ! n]
      else str_nat (n div 10) @ [''0123456789'' ! (n mod 10)])"

declare str_nat.simps [simp del]

definition str_int :: "int \<Rightarrow> string" where
  "str_int i = (if i < 0 then CHR ''-'' # str_nat (nat (- i)) else str_nat (nat i))"

text \<open>
  An f-string field holding a number. The text of a float is Python's \<^verbatim>\<open>repr\<close> of it, which
  is taken as a parameter.
\<close>

fun format_number :: "(real \<Rightarrow> string) \<Rightarrow> number \<Rightarrow> string" where
  "format_number repr_float (IntNum i) = str_int i"
| "format_number repr_float (FloatNum r) = repr_float r"

text \<open>\<^verbatim>\<open>sep.join(xs)\<close>.\<close>

fun join :: "string \<Rightarrow> string list \<Rightarrow> string" where
  "join sep [] = []"
| "join sep [x] = x"
| "join sep (x # y # ys) = x @ sep @ join sep (y # ys)"

text \<open>
  \<^verbatim>\<open>datetime.strftime\<close> for the directives the script uses: \<^verbatim>\<open>%m %d %H %M %S\<close> are
  zero-padded to two digits, \<^verbatim>\<open>%Y\<close> to four (as Python documents it). Any other character
  is copied.
\<close>

definition zero_pad :: "nat \<Rightarrow> nat \<Rightarrow> string" where
  "zero_pad width n = replicate (width - length (str_nat n)) (CHR ''0'') @ str_nat n"

definition directive :: "char \<Rightarrow> datetime \<Rightarrow> string" where
  "directive c t =
     (if c = CHR ''m'' then zero_pad 2 (month t)
      else if c = CHR ''d'' then zero_pad 2 (day t)
      else if c = CHR ''Y'' then zero_pad 4 (year t)
      else if c = CHR ''H'' then zero_pad 2 (hour t)
      else if c = CHR ''M'' then zero_pad 2 (minute t)
      else if c = CHR ''S'' then zero_pad 2 (second t)
      else [CHR ''%'', c])"

fun strftime :: "string \<Rightarrow> datetime \<Rightarrow> string" where
  "strftime [] t = []"
| "strftime [c] t = [c]"
| "strftime (c # d # fmt) t =
     (if c = CHR ''%'' then directive d t @ strftime fmt t else c # strftime (d # fmt) t)"

section \<open>The configuration\<close>

text \<open>Line 29: the observers of the experiment.\<close>

datatype observer = FileStorageObserver string

definition ex_observers :: "observer list" where
  "ex_observers = [] @ [FileStorageObserver ''experiments'']"

text \<open>The literals of lines 51 to 64.\<close>

definition default_hyper :: hyper where
  "default_hyper =
     \<lparr>n_epochs = 200, dimension = 50, manifold_name = ''Product'', eval_every = 20,
      gpu = - 1, train_threads = 5,
      submanifold_names = [''PoincareBall'', ''PoincareBall'', ''Euclidean''],
      double_precision = True, submanifold_shapes = [[15], [15], [20]],
      learning_rate = IntNum 1, sparse = True, burnin_num = 10,
      burnin_lr_mult = FloatNum 0.01, burnin_neg_multiplier = FloatNum 0.1\<rparr>"

text \<open>
  \<^verbatim>\<open>config\<close>, lines 50 to 69, run on the entries \<open>h\<close> of lines 51 to 64 (the literals, or
  the values a run presets) at the time \<open>t\<close> that \<^verbatim>\<open>datetime.now()\<close> returns.
\<close>

definition config :: "(real \<Rightarrow> string) \<Rightarrow> hyper \<Rightarrow> datetime \<Rightarrow> config" where
  "config repr_float h t =
     (let dir = ''runs/'' @ manifold_name h @ ''-'' @ str_int (dimension h) @ ''D-LR''
                  @ format_number repr_float (learning_rate h);
          dir = (if manifold_name h = ''Product''
                 then dir @ ''-Subs['' @ join '','' (submanifold_names h) @ '']''
                 else dir);
          dir = dir @ strftime ''-%m:%d:%Y-%H:%M:%S'' t
      in \<lparr>n_epochs = n_epochs h, dimension = dimension h, manifold_name = manifold_name h,
          eval_every = eval_every h, gpu = gpu h, train_threads = train_threads h,
          submanifold_names = submanifold_names h, double_precision = double_precision h,
          submanifold_shapes = submanifold_shapes h, learning_rate = learning_rate h,
          sparse = sparse h, burnin_num = burnin_num h, burnin_lr_mult = burnin_lr_mult h,
          burnin_neg_multiplier = burnin_neg_multiplier h,
          now = t, tensorboard_dir = dir\<rparr>)"


section \<open>Objects of the libraries\<close>

text \<open>
  The dataset that \<^verbatim>\<open>load_dataset\<close> returns: the two attributes the script touches, and
  the \<^verbatim>\<open>burnin\<close> flag it was loaded with.
\<close>

record dataset =
  objects :: "string list"
  neg_multiplier :: number
  loaded_burnin :: bool

datatype adjacency = AdjacencyDict dataset

datatype device = Device string

datatype mp_queue = MpQueue "int option"

datatype logger = Logger string

datatype dtype = DefaultType | DoubleType | FloatType

text \<open>
  The weight tensor \<^verbatim>\<open>model.weight.data\<close>: one row of numbers for each object.
\<close>

type_synonym tensor = "real list list"

text \<open>The \<^verbatim>\<open>ManifoldEmbedding\<close> module: its constructor arguments and what was done to it.\<close>

record model =
  model_manifold :: "manifold option"
  num_embeddings :: nat
  embedding_dim :: int
  model_sparse :: bool
  shared :: bool
  on_device :: "device option"
  precision :: dtype
  weight :: tensor

datatype optimizer = RiemannianSGD number "manifold option"

text \<open>The dict of lines 119 to 124.\<close>

record shared_params =
  sp_manifold :: "manifold option"
  sp_dimension :: int
  sp_objects :: "string list"
  sp_double_precision :: bool

text \<open>The argument list of lines 132 and 147, in its order.\<close>

record train_args =
  arg_device :: device
  arg_model :: model
  arg_data :: dataset
  arg_optimizer :: optimizer
  arg_n_epochs :: int
  arg_eval_every :: int
  arg_learning_rate :: number
  arg_burnin_num :: int
  arg_burnin_lr_mult :: number
  arg_shared_params :: shared_params
  arg_thread :: nat
  arg_tensorboard_dir :: string
  arg_log_queue :: mp_queue
  arg_log :: logger

section \<open>Calls into the libraries\<close>

text \<open>
  Every call that \<^verbatim>\<open>embed\<close> makes into a library is an event, with the arguments of the
  call. A worker process is named by a number. \<open>QueueNew\<close>
  carries the \<^verbatim>\<open>maxsize\<close> argument of \<^verbatim>\<open>mp.Queue\<close>, \<open>None\<close> when the call passes none.
\<close>

datatype event =
    LoadDataset bool
  | SetNumThreads nat
  | QueueNew "int option"
  | GetAdjacencyDict dataset
  | InitializeEval adjacency mp_queue string
  | ManifoldEmbeddingNew "manifold option" nat int bool
  | SetSharingStrategy string
  | ShareMemory
  | ModelTo device
  | ModelDouble
  | ModelFloat
  | ApplyInitialization tensor "manifold option"
  | NoGradEnter
  | NoGradExit
  | Projx manifold tensor
  | RiemannianSGDNew number "manifold option"
  | ProcessNew string train_args
  | ProcessStart nat
  | ProcessJoin nat
  | ProcessClose nat
  | ProcessTerminate nat
  | Train train_args
  | CloseThread bool
  | QueueEmpty
  | QueueGet
  | LogInfo logger string

text \<open>
  What the script cannot decide is the environment of a run: the two library calls of
  the manifold builder, which calls raise (and what), the dataset that \<^verbatim>\<open>load_dataset\<close>
  returns, the messages that are in the queue when the parent reads it, how many nested
  calls Python allows, the weights of a new \<^verbatim>\<open>ManifoldEmbedding\<close> (for a number of objects
  and a dimension), and what \<^verbatim>\<open>apply_initialization\<close> and \<^verbatim>\<open>manifold._projx\<close> leave in the
  tensor they are given. A call that writes its result into its argument changes the
  tensor; a call that only returns its result leaves the tensor as it was.
\<close>

record env = library +
  raises :: "event \<Rightarrow> exn option"
  load_dataset :: "bool \<Rightarrow> dataset"
  queued :: "string list"
  recursion_limit :: nat
  new_weight :: "nat \<Rightarrow> int \<Rightarrow> tensor"
  initialized :: "tensor \<Rightarrow> manifold option \<Rightarrow> tensor"
  projected :: "manifold \<Rightarrow> tensor \<Rightarrow> tensor"

text \<open>A run: the calls made, in order, and either the exception that ended it or a value.\<close>

type_synonym 'a run = "event list \<times> (exn + 'a)"

definition ret :: "'a \<Rightarrow> 'a run" where
  "ret v = ([], Inr v)"

definition raise :: "exn \<Rightarrow> 'a run" where
  "raise x = ([], Inl x)"

definition call :: "env \<Rightarrow> event \<Rightarrow> 'a \<Rightarrow> 'a run" where
  "call e ev v = ([ev], case raises e ev of Some x \<Rightarrow> Inl x | None \<Rightarrow> Inr v)"

text \<open>Sequencing: the second statement runs when the first did not raise.\<close>

definition and_then :: "'a run \<Rightarrow> ('a \<Rightarrow> 'b run) \<Rightarrow> 'b run" where
  "and_then m f =
     (case m of
        (es, Inl x) \<Rightarrow> (es, Inl x)
      | (es, Inr v) \<Rightarrow> (case f v of (es', r) \<Rightarrow> (es @ es', r)))"

text \<open>
  \<^verbatim>\<open>try: body finally: fin\<close>. The \<^verbatim>\<open>finally\<close> block always runs; an exception of its own
  replaces the outcome of the body, otherwise the outcome of the body stands.
\<close>

definition try_finally :: "'a run \<Rightarrow> unit run \<Rightarrow> 'a run" where
  "try_finally body fin =
     (case body of (es, r) \<Rightarrow>
        (case fin of
           (es', Inl x) \<Rightarrow> (es @ es', Inl x)
         | (es', Inr u) \<Rightarrow> (es @ es', r)))"

text \<open>\<^verbatim>\<open>try: body except: handler\<close>, with a bare \<^verbatim>\<open>except\<close>: every exception is caught.\<close>

definition try_except :: "'a run \<Rightarrow> 'a run \<Rightarrow> 'a run" where
  "try_except body handler =
     (case body of
        (es, Inl x) \<Rightarrow> (case handler of (es', r) \<Rightarrow> (es @ es', r))
      | (es, Inr v) \<Rightarrow> (es, Inr v))"

text \<open>\<^verbatim>\<open>with torch.no_grad(): body\<close>: the context is left also when the body raises.\<close>

definition with_no_grad :: "env \<Rightarrow> 'a run \<Rightarrow> 'a run" where
  "with_no_grad e body =
     and_then (call e NoGradEnter ()) (\<lambda>u. try_finally body (call e NoGradExit ()))"


section \<open>The command \<^verbatim>\<open>embed\<close>\<close>

text \<open>The local variables of \<^verbatim>\<open>embed\<close> that are alive at line 127.\<close>

record locals =
  l_device :: device
  l_model :: model
  l_data :: dataset
  l_optimizer :: optimizer
  l_shared_params :: shared_params
  l_log_queue :: mp_queue
  l_manifold :: "manifold option"

text \<open>
  Lines 87 to 126. \<^verbatim>\<open>embed\<close> is an \<^verbatim>\<open>@ex.command\<close>: its parameters are the entries of the
  configuration. The calls that return \<^verbatim>\<open>self\<close> (\<^verbatim>\<open>share_memory\<close>, \<^verbatim>\<open>to\<close>, \<^verbatim>\<open>double\<close>,
  \<^verbatim>\<open>float\<close>) update the one model. On line 117 the attribute \<^verbatim>\<open>_projx\<close> is looked up
  first, which raises \<open>AttributeError\<close> when the manifold is \<open>None\<close>. Lines 115 and 117 drop
  what the calls return: the weights afterwards are what the call left in its argument.
\<close>

definition embed_setup :: "env \<Rightarrow> 'a config_scheme \<Rightarrow> locals run" where
  "embed_setup e cfg =
     and_then (call e (LoadDataset (0 < burnin_num cfg)) (load_dataset e (0 < burnin_num cfg)))
       (\<lambda>data0.
     let data = (if 0 < burnin_num cfg
                 then data0\<lparr>neg_multiplier := burnin_neg_multiplier cfg\<rparr> else data0);
         device = Device (if 0 \<le> gpu cfg then ''cuda:'' @ str_int (gpu cfg) else ''cpu'')
     in
     and_then (call e (SetNumThreads 1) ()) (\<lambda>u.
     and_then (call e (QueueNew None) (MpQueue None)) (\<lambda>log_queue.
     and_then (call e (GetAdjacencyDict data) (AdjacencyDict data)) (\<lambda>adjacent_list.
     and_then (call e (InitializeEval adjacent_list log_queue (tensorboard_dir cfg)) ()) (\<lambda>u.
     and_then ([], get_embed_manifold e (recursion_limit e) cfg None None None) (\<lambda>manifold.
     and_then (call e (ManifoldEmbeddingNew manifold (length (objects data)) (dimension cfg)
                         (sparse cfg))
                 \<lparr>model_manifold = manifold, num_embeddings = length (objects data),
                  embedding_dim = dimension cfg, model_sparse = sparse cfg, shared = False,
                  on_device = None, precision = DefaultType,
                  weight = new_weight e (length (objects data)) (dimension cfg)\<rparr>) (\<lambda>model.
     and_then (if 1 < train_threads cfg
               then and_then (call e (SetSharingStrategy ''file_system'') ())
                      (\<lambda>u. call e ShareMemory (model\<lparr>shared := True\<rparr>))
               else ret model) (\<lambda>model.
     and_then (call e (ModelTo device) (model\<lparr>on_device := Some device\<rparr>)) (\<lambda>model.
     and_then (if double_precision cfg
               then call e ModelDouble (model\<lparr>precision := DoubleType\<rparr>)
               else call e ModelFloat (model\<lparr>precision := FloatType\<rparr>)) (\<lambda>model.
     and_then (call e (ApplyInitialization (weight model) manifold)
                 (model\<lparr>weight := initialized e (weight model) manifold\<rparr>)) (\<lambda>model.
     and_then (with_no_grad e
                 (case manifold of
                    None \<Rightarrow> raise AttributeError
                  | Some m \<Rightarrow> call e (Projx m (weight model))
                               (model\<lparr>weight := projected e m (weight model)\<rparr>))) (\<lambda>model.
     let shared_params = \<lparr>sp_manifold = manifold, sp_dimension = dimension cfg,
                           sp_objects = objects data,
                           sp_double_precision = double_precision cfg\<rparr>
     in
     and_then (call e (RiemannianSGDNew (learning_rate cfg) manifold)
                 (RiemannianSGD (learning_rate cfg) manifold)) (\<lambda>optimizer.
     ret \<lparr>l_device = device, l_model = model, l_data = data, l_optimizer = optimizer,
          l_shared_params = shared_params, l_log_queue = log_queue,
          l_manifold = manifold\<rparr>
     )))))))))))))"

text \<open>The list \<^verbatim>\<open>args\<close> of lines 132 and 147 for the worker number \<open>i\<close>.\<close>

definition train_args_of :: "locals \<Rightarrow> 'a config_scheme \<Rightarrow> logger \<Rightarrow> nat \<Rightarrow> train_args" where
  "train_args_of l cfg lg i =
     \<lparr>arg_device = l_device l, arg_model = l_model l, arg_data = l_data l,
      arg_optimizer = l_optimizer l, arg_n_epochs = n_epochs cfg,
      arg_eval_every = eval_every cfg, arg_learning_rate = learning_rate cfg,
      arg_burnin_num = burnin_num cfg, arg_burnin_lr_mult = burnin_lr_mult cfg,
      arg_shared_params = l_shared_params l, arg_thread = i,
      arg_tensorboard_dir = tensorboard_dir cfg, arg_log_queue = l_log_queue l,
      arg_log = lg\<rparr>"

text \<open>
  Lines 131 to 134, over the numbers \<^verbatim>\<open>range(train_threads)\<close> still to come. A process
  object is named by the number \<open>i\<close> of the iteration that creates it. The list
  \<^verbatim>\<open>threads\<close> is returned in every case, since the \<^verbatim>\<open>finally\<close> block reads it. A process
  whose constructor raises is not appended; one whose \<^verbatim>\<open>start\<close> raises is.
\<close>

fun spawn_workers ::
  "env \<Rightarrow> (nat \<Rightarrow> train_args) \<Rightarrow> nat list \<Rightarrow> nat list \<Rightarrow> event list \<times> nat list \<times> exn option"
where
  "spawn_workers e args [] threads = ([], threads, None)"
| "spawn_workers e args (i # rest) threads =
     (case raises e (ProcessNew ''train'' (args i)) of
        Some x \<Rightarrow> ([ProcessNew ''train'' (args i)], threads, Some x)
      | None \<Rightarrow>
          (let threads = threads @ [i] in
           case raises e (ProcessStart (last threads)) of
             Some x \<Rightarrow>
               ([ProcessNew ''train'' (args i), ProcessStart (last threads)], threads, Some x)
           | None \<Rightarrow>
               (case spawn_workers e args rest threads of
                  (es, threads', r) \<Rightarrow>
                    (ProcessNew ''train'' (args i) # ProcessStart (last threads) # es,
                     threads', r))))"

text \<open>Lines 136 and 137.\<close>

fun join_workers :: "env \<Rightarrow> nat list \<Rightarrow> unit run" where
  "join_workers e [] = ret ()"
| "join_workers e (thread # rest) =
     and_then (call e (ProcessJoin thread) ()) (\<lambda>u. join_workers e rest)"

text \<open>Lines 139 to 143.\<close>

fun close_workers :: "env \<Rightarrow> nat list \<Rightarrow> unit run" where
  "close_workers e [] = ret ()"
| "close_workers e (thread # rest) =
     and_then (try_except (call e (ProcessClose thread) ()) (call e (ProcessTerminate thread) ()))
       (\<lambda>u. close_workers e rest)"

text \<open>Lines 128 to 144: the branch \<^verbatim>\<open>train_threads > 1\<close>.\<close>

definition train_in_processes :: "env \<Rightarrow> 'a config_scheme \<Rightarrow> logger \<Rightarrow> locals \<Rightarrow> unit run" where
  "train_in_processes e cfg lg l =
     (case spawn_workers e (train_args_of l cfg lg) [0..<nat (train_threads cfg)] [] of
        (es, threads, r) \<Rightarrow>
          try_finally
            (case r of
               Some x \<Rightarrow> (es, Inl x)
             | None \<Rightarrow> and_then (es, Inr ()) (\<lambda>u. join_workers e threads))
            (and_then (close_workers e threads) (\<lambda>u. call e (CloseThread True) ())))"

text \<open>Lines 146 to 151: the other branch.\<close>

definition train_in_parent :: "env \<Rightarrow> 'a config_scheme \<Rightarrow> logger \<Rightarrow> locals \<Rightarrow> unit run" where
  "train_in_parent e cfg lg l =
     try_finally (call e (Train (train_args_of l cfg lg 0)) ())
       (call e (CloseThread True) ())"

text \<open>
  Lines 154 to 156, on the messages in the queue: \<^verbatim>\<open>empty()\<close> answers whether any is
  left, \<^verbatim>\<open>get()\<close> takes the oldest.
\<close>

fun drain :: "env \<Rightarrow> logger \<Rightarrow> string list \<Rightarrow> unit run" where
  "drain e lg [] = call e QueueEmpty ()"
| "drain e lg (msg # rest) =
     and_then (call e QueueEmpty ()) (\<lambda>u.
     and_then (call e QueueGet ()) (\<lambda>u.
     and_then (call e (LogInfo lg msg) ()) (\<lambda>u.
     drain e lg rest)))"

text \<open>Lines 128 to 151: both branches.\<close>

definition embed_train :: "env \<Rightarrow> 'a config_scheme \<Rightarrow> logger \<Rightarrow> locals \<Rightarrow> unit run" where
  "embed_train e cfg lg l =
     (if 1 < train_threads cfg then train_in_processes e cfg lg l
      else train_in_parent e cfg lg l)"

text \<open>\<^verbatim>\<open>embed\<close>, lines 85 to 156; \<open>lg\<close> is the logger \<^verbatim>\<open>_log\<close> that the framework passes.\<close>

definition embed :: "env \<Rightarrow> 'a config_scheme \<Rightarrow> logger \<Rightarrow> unit run" where
  "embed e cfg lg =
     and_then (embed_setup e cfg) (\<lambda>l.
     and_then (embed_train e cfg lg l) (\<lambda>u.
     drain e lg (queued e)))"

section \<open>Kinds of calls\<close>

text \<open>The calls that lines 87 to 126 can make.\<close>

definition setup_call :: "event \<Rightarrow> bool" where
  "setup_call ev =
     (case ev of
        ProcessNew target a \<Rightarrow> False
      | ProcessStart t \<Rightarrow> False
      | ProcessJoin t \<Rightarrow> False
      | ProcessClose t \<Rightarrow> False
      | ProcessTerminate t \<Rightarrow> False
      | Train a \<Rightarrow> False
      | CloseThread w \<Rightarrow> False
      | QueueEmpty \<Rightarrow> False
      | QueueGet \<Rightarrow> False
      | LogInfo l m \<Rightarrow> False
      | _ \<Rightarrow> True)"

text \<open>A process is created.\<close>

definition process_new :: "event \<Rightarrow> bool" where
  "process_new ev = (case ev of ProcessNew target a \<Rightarrow> True | _ \<Rightarrow> False)"

text \<open>A process is started.\<close>

definition process_start :: "event \<Rightarrow> bool" where
  "process_start ev = (case ev of ProcessStart t \<Rightarrow> True | _ \<Rightarrow> False)"


text \<open>\<^verbatim>\<open>train\<close> is called in the parent.\<close>

definition train_call :: "event \<Rightarrow> bool" where
  "train_call ev = (case ev of Train a \<Rightarrow> True | _ \<Rightarrow> False)"

text \<open>The \<^verbatim>\<open>maxsize\<close> arguments of the queues created, in order.\<close>

fun queue_maxsizes :: "event list \<Rightarrow> int option list" where
  "queue_maxsizes [] = []"
| "queue_maxsizes (QueueNew m # evs) = m # queue_maxsizes evs"
| "queue_maxsizes (ev # evs) = queue_maxsizes evs"

text \<open>
  A queue is bounded by the script when \<^verbatim>\<open>mp.Queue\<close> is given a positive \<^verbatim>\<open>maxsize\<close>;
  without the argument (and with one that is not positive) the library puts no limit of
  the caller's on it.
\<close>

definition has_bound :: "int option \<Rightarrow> bool" where
  "has_bound m = (case m of None \<Rightarrow> False | Some k \<Rightarrow> 0 < k)"

text \<open>The messages logged, in order.\<close>

fun logged :: "event list \<Rightarrow> (logger \<times> string) list" where
  "logged [] = []"
| "logged (LogInfo l m # evs) = (l, m) # logged evs"
| "logged (ev # evs) = logged evs"



text \<open>
  What the \<^verbatim>\<open>finally\<close> loop of lines 139 to 143 does to one process when \<^verbatim>\<open>terminate\<close>
  returns: \<^verbatim>\<open>close\<close>, and \<^verbatim>\<open>terminate\<close> where \<^verbatim>\<open>close\<close> raised.
\<close>

definition closing :: "env \<Rightarrow> nat \<Rightarrow> event list" where
  "closing e t =
     (if raises e (ProcessClose t) = None then [ProcessClose t]
      else [ProcessClose t, ProcessTerminate t])"

section \<open>The build script\<close>

text \<open>
  \<^verbatim>\<open>riemann/setup.py\<close>. \<^verbatim>\<open>out.lower()\<close> on bytes changes the ASCII capitals only, and
  \<^verbatim>\<open>str\<close> of bytes is their \<^verbatim>\<open>repr\<close>: the letter b, a quote, the bytes with the
  unprintable ones escaped, the quote.
\<close>

definition lower_byte :: "char \<Rightarrow> char" where
  "lower_byte c =
     (let n = (of_char c :: nat) in if 65 \<le> n \<and> n \<le> 90 then char_of (n + 32) else c)"

definition bytes_lower :: "string \<Rightarrow> string" where
  "bytes_lower s = map lower_byte s"

definition hex_digit :: "nat \<Rightarrow> char" where
  "hex_digit n = ''0123456789abcdef'' ! (n mod 16)"

definition escape_byte :: "char \<Rightarrow> char \<Rightarrow> string" where
  "escape_byte quote c =
     (let n = (of_char c :: nat) in
      if c = quote \<or> c = CHR 0x5C then [CHR 0x5C, c]
      else if c = CHR 0x09 then [CHR 0x5C, CHR ''t'']
      else if c = CHR 0x0A then [CHR 0x5C, CHR ''n'']
      else if c = CHR 0x0D then [CHR 0x5C, CHR ''r'']
      else if n < 32 \<or> 127 \<le> n then [CHR 0x5C, CHR ''x'', hex_digit (n div 16), hex_digit n]
      else [c])"

definition bytes_str :: "string \<Rightarrow> string" where
  "bytes_str s =
     (let quote = (if CHR 0x27 \<in> set s \<and> CHR 0x22 \<notin> set s then CHR 0x22 else CHR 0x27)
      in CHR ''b'' # quote # concat (map (escape_byte quote) s) @ [quote])"

text \<open>
  \<^verbatim>\<open>re.search('apple *llvm', s)\<close>: somewhere in \<open>s\<close> the word apple, any number of
  spaces, the word llvm.
\<close>

definition apple_llvm_here :: "string \<Rightarrow> bool" where
  "apple_llvm_here s =
     (prefix ''apple'' s \<and> prefix ''llvm'' (dropWhile (\<lambda>c. c = CHR '' '') (drop 5 s)))"

fun search_apple_llvm :: "string \<Rightarrow> bool" where
  "search_apple_llvm [] = apple_llvm_here []"
| "search_apple_llvm (c # s) = (apple_llvm_here (c # s) \<or> search_apple_llvm s)"

record extension =
  ext_name :: string
  ext_sources :: "string list"
  ext_include_dirs :: "string list"
  ext_extra_compile_args :: "string list"
  ext_language :: string

text \<open>
  What the script takes from the machine: the configuration variable \<^verbatim>\<open>CC\<close> (\<open>None\<close>
  when there is none), the output of a command or the exception of running it, the
  include directory of numpy, and \<^verbatim>\<open>cythonize\<close>.
\<close>

record build_env =
  config_var_CC :: "string option"
  check_output :: "string list \<Rightarrow> exn + string"
  numpy_get_include :: string
  cythonize :: "extension list \<Rightarrow> exn + extension list"

text \<open>Lines 10 to 15, from the output \<open>out\<close> of the compiler.\<close>

definition extra_compile_args :: "string \<Rightarrow> string list" where
  "extra_compile_args out =
     (let args = [''-std=c++11'']
      in if search_apple_llvm (bytes_str (bytes_lower out)) then args @ [''-stdlib=libc++'']
         else args)"

text \<open>Lines 17 to 23.\<close>

definition extensions :: "build_env \<Rightarrow> string \<Rightarrow> extension list" where
  "extensions b out =
     [\<lparr>ext_name = ''data.graph_dataset'', ext_sources = [''data/graph_dataset.pyx''],
       ext_include_dirs = [numpy_get_include b, ''.''],
       ext_extra_compile_args = extra_compile_args out, ext_language = ''c++''\<rparr>]"

text \<open>The keyword arguments of the call of \<^verbatim>\<open>setup\<close>, lines 29 to 42.\<close>

record setup_kwargs =
  kw_name :: string
  kw_version :: string
  kw_packages :: "string list"
  kw_package_dir :: "(string \<times> string) list"
  kw_url :: string
  kw_license :: string
  kw_author :: string
  kw_author_email :: string
  kw_description :: string
  kw_ext_modules :: "extension list"
  kw_include_dirs :: string
  kw_install_requires :: "string list"

text \<open>
  The script: an exception of \<^verbatim>\<open>check_output\<close> or of \<^verbatim>\<open>cythonize\<close> ends it, otherwise it
  calls \<^verbatim>\<open>setup\<close> with these arguments. \<^verbatim>\<open>split(' ')[0]\<close> is the text before the first
  space.
\<close>

definition setup_script :: "build_env \<Rightarrow> exn + setup_kwargs" where
  "setup_script b =
     (let CC = takeWhile (\<lambda>c. c \<noteq> CHR '' '')
                 (case config_var_CC b of Some v \<Rightarrow> v | None \<Rightarrow> ''gcc'')
      in case check_output b [CC, ''--version''] of
           Inl x \<Rightarrow> Inl x
         | Inr out \<Rightarrow>
             (case cythonize b (extensions b out) of
                Inl x \<Rightarrow> Inl x
              | Inr ext_modules \<Rightarrow>
                  (let install_requires = [''Cython'', ''torch'', ''geoopt'', ''numpy'']
                   in Inr \<lparr>kw_name = ''riemanniannlp'', kw_version = ''0.1'',
                           kw_packages = [''riemann''],
                           kw_package_dir = [(''riemann'', ''.'')],
                           kw_url = [], kw_license = [], kw_author = ''justin'',
                           kw_author_email = ''jdieter@stanford.edu'',
                           kw_description = [], kw_ext_modules = ext_modules,
                           kw_include_dirs = numpy_get_include b,
                           kw_install_requires = install_requires\<rparr>)))"

section \<open>Example inputs\<close>

definition example_time :: datetime where
  "example_time = \<lparr>year = 2019, month = 3, day = 7, hour = 14, minute = 5, second = 9\<rparr>"

text \<open>The configuration of the literals.\<close>

definition example_config :: config where
  "example_config = config (\<lambda>r. ''?'') default_hyper example_time"

text \<open>The literals with two training processes, and with a single one.\<close>

definition two_config :: config where
  "two_config = config (\<lambda>r. ''?'') (default_hyper\<lparr>train_threads := 2\<rparr>) example_time"

definition single_config :: config where
  "single_config = config (\<lambda>r. ''?'') (default_hyper\<lparr>train_threads := 1\<rparr>) example_time"

text \<open>A manifold name that the builder does not know.\<close>

definition unknown_config :: config where
  "unknown_config = config (\<lambda>r. ''?'') (default_hyper\<lparr>manifold_name := ''Torus''\<rparr>) example_time"


text \<open>The literals without burn-in.\<close>

definition no_burnin_config :: config where
  "no_burnin_config = config (\<lambda>r. ''?'') (default_hyper\<lparr>burnin_num := 0\<rparr>) example_time"

definition example_dataset :: "bool \<Rightarrow> dataset" where
  "example_dataset b =
     \<lparr>objects = [''a'', ''b''], neg_multiplier = IntNum 10, loaded_burnin = b\<rparr>"

text \<open>
  \<^verbatim>\<open>np.array\<close> as numpy has it on lists of small ints: a list whose rows differ in
  length is refused.
\<close>

definition rectangular_array :: "int list list \<Rightarrow> exn + ndarray" where
  "rectangular_array rows =
     (if \<forall>r\<in>set rows. length r = length (hd rows) then Inr (NdArray rows)
      else Inl (Raised ''ValueError''))"

text \<open>
  An environment in which no call raises, with two messages left in the queue. New
  weights are zero, \<^verbatim>\<open>apply_initialization\<close> fills its argument with twos, and \<^verbatim>\<open>_projx\<close>
  overwrites each row of its argument with a unit vector.
\<close>

definition quiet :: env where
  "quiet =
     \<lparr>np_array = rectangular_array, product_raises = (\<lambda>subs a. None),
      raises = (\<lambda>ev. None), load_dataset = example_dataset,
      queued = [''m1'', ''m2''], recursion_limit = 1000,
      new_weight = (\<lambda>n d. replicate n (replicate (nat d) 0)),
      initialized = (\<lambda>w m. map (map (\<lambda>x. 2)) w),
      projected = (\<lambda>m w. map (\<lambda>row. 1 # replicate (length row - 1) 0) w)\<rparr>"

text \<open>
  An environment in which joining the first process is interrupted and the second
  process, still running, refuses to be closed.
\<close>

definition interrupted :: env where
  "interrupted =
     quiet\<lparr>raises :=
       (\<lambda>ev. if ev = ProcessJoin 0 then Some (Raised ''KeyboardInterrupt'')
             else if ev = ProcessClose 1 then Some (Raised ''ValueError'')
             else None)\<rparr>"

text \<open>An environment in which \<^verbatim>\<open>close\<close> and \<^verbatim>\<open>terminate\<close> of the first process raise.\<close>

definition stubborn :: env where
  "stubborn =
     quiet\<lparr>raises :=
       (\<lambda>ev. if ev = ProcessClose 0 then Some (Raised ''ValueError'')
             else if ev = ProcessTerminate 0 then Some (Raised ''OSError'')
             else None)\<rparr>"

text \<open>An environment in which \<^verbatim>\<open>train\<close> raises in the parent.\<close>

definition failing_train :: env where
  "failing_train =
     quiet\<lparr>raises :=
       (\<lambda>ev. case ev of Train a \<Rightarrow> Some (Raised ''RuntimeError'') | _ \<Rightarrow> None)\<rparr>"




definition example_logger :: logger where
  "example_logger = Logger ''Embeddings''"

text \<open>A machine with gcc on which every step of the build script succeeds.\<close>

definition example_build_env :: build_env where
  "example_build_env =
     \<lparr>config_var_CC = Some ''gcc -pthread'',
      check_output = (\<lambda>cmd. if cmd = [''gcc'', ''--version'']
                            then Inr ''gcc (Ubuntu 7.5.0) 7.5.0''
                            else Inl (Raised ''FileNotFoundError'')),
      numpy_get_include = ''/usr/lib/python3/numpy/core/include'',
      cythonize = (\<lambda>exts. Inr (map (\<lambda>x. x\<lparr>ext_sources := [''data/graph_dataset.cpp'']\<rparr>) exts))\<rparr>"

section \<open>Properties of the manifold builder\<close>

lemma map_result_all_Inr:
  "(\<And>x. x \<in> set xs \<Longrightarrow> f x = Inr (g x)) \<Longrightarrow> map_result f xs = Inr (map g xs)"
  by (induction xs) auto


lemma get_embed_manifold_leaf:
  "name \<noteq> ''Product'' \<Longrightarrow>
   get_embed_manifold lib (Suc depth) cfg (Some name) arg_names arg_shapes
     = Inr (leaf_manifold name)"
  by (simp add: leaf_manifold_def Let_def)

lemma get_embed_manifold_leaves:
  assumes "''Product'' \<notin> set names"
  shows "map_result (\<lambda>n. get_embed_manifold lib (Suc depth) cfg (Some n) None None) names
           = Inr (map leaf_manifold names)"
proof (rule map_result_all_Inr)
  fix n assume "n \<in> set names"
  with assms have "n \<noteq> ''Product''" by auto
  then show "get_embed_manifold lib (Suc depth) cfg (Some n) None None = Inr (leaf_manifold n)"
    by (rule get_embed_manifold_leaf)
qed







lemma configured_flat_Product:
  assumes "manifold_name cfg = ''Product''"
    and "''Product'' \<notin> set (submanifold_names cfg)"
    and "np_array lib (submanifold_shapes cfg) = Inr a"
    and "product_raises lib (map leaf_manifold (submanifold_names cfg)) a = None"
  shows "get_embed_manifold lib (Suc (Suc depth)) cfg None None None
          = Inr (Some (Product (map leaf_manifold (submanifold_names cfg)) a))"
proof -
  have "map_result (\<lambda>n. get_embed_manifold lib (Suc depth) cfg (Some n) None None)
               (submanifold_names cfg) = Inr (map leaf_manifold (submanifold_names cfg))"
    using assms(2) by (rule get_embed_manifold_leaves)
  with assms(1,3,4) show ?thesis
    by (subst get_embed_manifold.simps) (simp add: Let_def)
qed



lemma rectangular_examples:
  "rectangular_array [[15], [15], [20]] = Inr (NdArray [[15], [15], [20]])"
  "rectangular_array [[2], [3]] = Inr (NdArray [[2], [3]])"
  "rectangular_array [[15], [15, 2], [20]] = Inl (Raised ''ValueError'')"
  by (simp_all add: rectangular_array_def)



text \<open>
  Claim C9. For a name that is none of \<^verbatim>\<open>"Euclidean"\<close>, \<^verbatim>\<open>"PoincareBall"\<close>, \<^verbatim>\<open>"Sphere"\<close> and
  \<^verbatim>\<open>"Product"\<close>, whether it is passed or comes from the configuration,
  \<^verbatim>\<open>get_embed_manifold\<close> returns \<open>None\<close> and raises nothing: the name is not validated.
\<close>

theorem get_embed_manifold_unknown_name:
  "(name \<notin> {''Euclidean'', ''PoincareBall'', ''Sphere'', ''Product''} \<longrightarrow>
      get_embed_manifold lib (Suc depth) cfg (Some name) arg_names arg_shapes = Inr None)
   \<and> (manifold_name cfg \<notin> {''Euclidean'', ''PoincareBall'', ''Sphere'', ''Product''} \<longrightarrow>
      get_embed_manifold lib (Suc depth) cfg None arg_names arg_shapes = Inr None)"
  by (simp add: Let_def)

theorem get_embed_manifold_unknown_name_witness:
  "''Torus'' \<notin> {''Euclidean'', ''PoincareBall'', ''Sphere'', ''Product''}
   \<and> get_embed_manifold quiet (Suc 0) example_config (Some ''Torus'') None None = Inr None
   \<and> manifold_name unknown_config \<notin> {''Euclidean'', ''PoincareBall'', ''Sphere'', ''Product''}
   \<and> get_embed_manifold quiet (Suc 0) unknown_config None None None = Inr None"
  using get_embed_manifold_unknown_name [of "''Torus''" quiet 0 example_config None None]
    get_embed_manifold_unknown_name [of "''Torus''" quiet 0 unknown_config None None]
  by (simp add: unknown_config_def config_def default_hyper_def)

section \<open>Properties of the configuration and of the build script\<close>

lemma strftime_run_format:
  "strftime ''-%m:%d:%Y-%H:%M:%S'' t =
     ''-'' @ zero_pad 2 (month t) @ '':'' @ zero_pad 2 (day t) @ '':'' @ zero_pad 4 (year t)
       @ ''-'' @ zero_pad 2 (hour t) @ '':'' @ zero_pad 2 (minute t) @ '':''
       @ zero_pad 2 (second t)"
  by (simp add: directive_def)

text \<open>
  Claim C5. The one observer of the experiment is a file storage observer on the
  directory \<^verbatim>\<open>experiments\<close>. For every setting of the entries and every time,
  \<^verbatim>\<open>tensorboard_dir\<close> is \<^verbatim>\<open>runs/\<close>, the manifold name, the dimension, the learning rate,
  for the manifold name \<^verbatim>\<open>"Product"\<close> the submanifold names joined by commas, and the
  time of \<^verbatim>\<open>now\<close> formatted as \<^verbatim>\<open>-%m:%d:%Y-%H:%M:%S\<close>: it starts with \<^verbatim>\<open>runs/\<close>, contains
  each of these parts and ends with the formatted time.
\<close>

theorem config_tensorboard_dir:
  "ex_observers = [FileStorageObserver ''experiments'']
   \<and> tensorboard_dir (config repr_float h t) =
       ''runs/'' @ manifold_name h @ ''-'' @ str_int (dimension h) @ ''D-LR''
         @ format_number repr_float (learning_rate h)
         @ (if manifold_name h = ''Product''
            then ''-Subs['' @ join '','' (submanifold_names h) @ '']'' else [])
         @ strftime ''-%m:%d:%Y-%H:%M:%S'' t
   \<and> prefix ''runs/'' (tensorboard_dir (config repr_float h t))
   \<and> sublist (manifold_name h) (tensorboard_dir (config repr_float h t))
   \<and> sublist (str_int (dimension h)) (tensorboard_dir (config repr_float h t))
   \<and> sublist (format_number repr_float (learning_rate h)) (tensorboard_dir (config repr_float h t))
   \<and> (manifold_name h = ''Product'' \<longrightarrow>
        sublist (join '','' (submanifold_names h)) (tensorboard_dir (config repr_float h t)))
   \<and> suffix (strftime ''-%m:%d:%Y-%H:%M:%S'' (now (config repr_float h t)))
        (tensorboard_dir (config repr_float h t))
   \<and> strftime ''-%m:%d:%Y-%H:%M:%S'' t =
       ''-'' @ zero_pad 2 (month t) @ '':'' @ zero_pad 2 (day t) @ '':''
         @ zero_pad 4 (year t) @ ''-'' @ zero_pad 2 (hour t) @ '':''
         @ zero_pad 2 (minute t) @ '':'' @ zero_pad 2 (second t)"
proof -
  let ?dir = "tensorboard_dir (config repr_float h t)"
  let ?subs = "(if manifold_name h = ''Product''
            then ''-Subs['' @ join '','' (submanifold_names h) @ '']'' else [])"
  let ?stamp = "strftime ''-%m:%d:%Y-%H:%M:%S'' t"
  have dir: "?dir = ''runs/'' @ manifold_name h @ ''-'' @ str_int (dimension h) @ ''D-LR''
         @ format_number repr_float (learning_rate h) @ ?subs @ ?stamp"
    by (simp add: config_def Let_def)
  have now: "now (config repr_float h t) = t"
    by (simp add: config_def Let_def)
  have p: "prefix ''runs/'' ?dir"
    unfolding dir by (rule prefixI) simp
  have s1: "sublist (manifold_name h) ?dir"
    unfolding dir by (rule sublist_appendI)
  have s2: "sublist (str_int (dimension h)) ?dir"
    unfolding dir
    using sublist_appendI [of "str_int (dimension h)" "''runs/'' @ manifold_name h @ ''-''"]
    by simp
  have s3: "sublist (format_number repr_float (learning_rate h)) ?dir"
    unfolding dir
    using sublist_appendI [of "format_number repr_float (learning_rate h)"
        "''runs/'' @ manifold_name h @ ''-'' @ str_int (dimension h) @ ''D-LR''"]
    by simp
  have s4: "sublist (join '','' (submanifold_names h)) ?dir" if "manifold_name h = ''Product''"
    unfolding dir
    using that sublist_appendI [of "join '','' (submanifold_names h)"
        "''runs/'' @ manifold_name h @ ''-'' @ str_int (dimension h) @ ''D-LR''
           @ format_number repr_float (learning_rate h) @ ''-Subs[''" "'']'' @ ?stamp"]
    by simp
  have s5: "suffix ?stamp ?dir"
    unfolding dir by (simp add: suffix_def)
  show ?thesis
    using dir now p s1 s2 s3 s4 s5 strftime_run_format [of t]
    by (simp add: ex_observers_def)
qed

theorem config_tensorboard_dir_witness:
  "manifold_name default_hyper = ''Product''
   \<and> tensorboard_dir (config (\<lambda>r. ''?'') default_hyper example_time)
       = ''runs/Product-50D-LR1-Subs[PoincareBall,PoincareBall,Euclidean]-03:07:2019-14:05:09''
   \<and> sublist ''PoincareBall,PoincareBall,Euclidean''
        (tensorboard_dir (config (\<lambda>r. ''?'') default_hyper example_time))"
  using config_tensorboard_dir [of "\<lambda>r. ''?''" default_hyper example_time]
  by (simp add: config_def default_hyper_def example_time_def str_int_def str_nat.simps
      directive_def zero_pad_def)

text \<open>
  Claim C8. The build script defines exactly one extension: it is named
  \<^verbatim>\<open>data.graph_dataset\<close>, its source is \<^verbatim>\<open>data/graph_dataset.pyx\<close>, its language is \<^verbatim>\<open>c++\<close>
  and \<^verbatim>\<open>-std=c++11\<close> is among its compile arguments. Whenever the script reaches the call
  of \<^verbatim>\<open>setup\<close>, the extension modules passed are what \<^verbatim>\<open>cythonize\<close> returned for that
  list, and the package installed is \<^verbatim>\<open>riemann\<close>.
\<close>

theorem setup_script_extension:
  "length (extensions b out) = 1
   \<and> map ext_name (extensions b out) = [''data.graph_dataset'']
   \<and> map ext_sources (extensions b out) = [[''data/graph_dataset.pyx'']]
   \<and> map ext_language (extensions b out) = [''c++'']
   \<and> (\<forall>x \<in> set (extensions b out). ''-std=c++11'' \<in> set (ext_extra_compile_args x))
   \<and> (\<forall>kw. setup_script b = Inr kw \<longrightarrow>
        (\<exists>out. check_output b
                  [takeWhile (\<lambda>c. c \<noteq> CHR '' '')
                     (case config_var_CC b of Some v \<Rightarrow> v | None \<Rightarrow> ''gcc''), ''--version'']
                  = Inr out
             \<and> cythonize b (extensions b out) = Inr (kw_ext_modules kw))
        \<and> kw_packages kw = [''riemann'']
        \<and> kw_package_dir kw = [(''riemann'', ''.'')])"
  by (auto simp: extensions_def extra_compile_args_def setup_script_def Let_def
      split: sum.splits)


lemma extra_compile_args_gcc: "extra_compile_args ''gcc (Ubuntu 7.5.0) 7.5.0'' = [''-std=c++11'']"
  by code_simp

theorem setup_script_extension_witness:
  "setup_script example_build_env =
     Inr \<lparr>kw_name = ''riemanniannlp'', kw_version = ''0.1'', kw_packages = [''riemann''],
          kw_package_dir = [(''riemann'', ''.'')], kw_url = [], kw_license = [],
          kw_author = ''justin'', kw_author_email = ''jdieter@stanford.edu'',
          kw_description = [],
          kw_ext_modules =
            [\<lparr>ext_name = ''data.graph_dataset'', ext_sources = [''data/graph_dataset.cpp''],
              ext_include_dirs = [''/usr/lib/python3/numpy/core/include'', ''.''],
              ext_extra_compile_args = [''-std=c++11''], ext_language = ''c++''\<rparr>],
          kw_include_dirs = ''/usr/lib/python3/numpy/core/include'',
          kw_install_requires = [''Cython'', ''torch'', ''geoopt'', ''numpy'']\<rparr>
   \<and> map ext_extra_compile_args (extensions example_build_env ''gcc (Ubuntu 7.5.0) 7.5.0'')
       = [[''-std=c++11'']]"
  using setup_script_extension [of example_build_env "''gcc (Ubuntu 7.5.0) 7.5.0''"]
  by (simp add: setup_script_def example_build_env_def extensions_def extra_compile_args_gcc)

section \<open>Runs of \<^verbatim>\<open>embed\<close>\<close>

lemma and_then_Inl: "and_then (es, Inl x) f = (es, Inl x)"
  by (simp add: and_then_def)

lemma and_then_Inr: "and_then (es, Inr v) f = (es @ fst (f v), snd (f v))"
  by (simp add: and_then_def split: prod.splits)

lemma and_then_eq_Inr:
  "and_then m f = (es, Inr r) \<longleftrightarrow>
     (\<exists>es1 v es2. m = (es1, Inr v) \<and> f v = (es2, Inr r) \<and> es = es1 @ es2)"
  by (cases m) (auto simp: and_then_def split: sum.splits prod.splits)

lemma call_eq_Inr: "call e ev v = (es, Inr r) \<longleftrightarrow> raises e ev = None \<and> es = [ev] \<and> r = v"
  by (auto simp: call_def split: option.splits)

lemma ret_eq_Inr: "ret v = (es, Inr r) \<longleftrightarrow> es = [] \<and> r = v"
  by (auto simp: ret_def)

lemma raise_eq_Inr: "raise x = (es, Inr r) \<longleftrightarrow> False"
  by (simp add: raise_def)

lemma try_finally_eq_Inr:
  "try_finally body fin = (es, Inr r) \<longleftrightarrow>
     (\<exists>es1 es2. body = (es1, Inr r) \<and> fin = (es2, Inr ()) \<and> es = es1 @ es2)"
  by (cases body; cases fin) (auto simp: try_finally_def split: sum.splits)

lemma with_no_grad_eq_Inr:
  "with_no_grad e body = (es, Inr r) \<longleftrightarrow>
     (\<exists>es1. raises e NoGradEnter = None \<and> raises e NoGradExit = None \<and> body = (es1, Inr r)
        \<and> es = NoGradEnter # es1 @ [NoGradExit])"
  by (auto simp: with_no_grad_def and_then_eq_Inr call_eq_Inr try_finally_eq_Inr)

lemmas run_eq_Inr = and_then_eq_Inr call_eq_Inr ret_eq_Inr raise_eq_Inr try_finally_eq_Inr
  with_no_grad_eq_Inr

lemma fst_and_then:
  "fst (and_then m f) =
     fst m @ (case snd m of Inl x \<Rightarrow> [] | Inr v \<Rightarrow> fst (f v))"
  by (cases m) (simp add: and_then_def split: sum.splits prod.splits)

lemma snd_and_then:
  "snd (and_then m f) = (case snd m of Inl x \<Rightarrow> Inl x | Inr v \<Rightarrow> snd (f v))"
  by (cases m) (simp add: and_then_def split: sum.splits prod.splits)

lemma in_and_then:
  "ev \<in> set (fst (and_then m f)) \<Longrightarrow> ev \<in> set (fst m) \<or> (\<exists>v. ev \<in> set (fst (f v)))"
  unfolding fst_and_then by (cases "snd m") auto

lemma in_call: "ev' \<in> set (fst (call e ev v)) \<longleftrightarrow> ev' = ev"
  by (simp add: call_def)

lemma in_try_finally:
  "ev \<in> set (fst (try_finally body fin)) \<longleftrightarrow> ev \<in> set (fst body) \<or> ev \<in> set (fst fin)"
  by (cases body; cases fin) (auto simp: try_finally_def split: sum.splits)

lemma in_try_except:
  "ev \<in> set (fst (try_except body h)) \<Longrightarrow> ev \<in> set (fst body) \<or> ev \<in> set (fst h)"
  by (cases body; cases h) (auto simp: try_except_def split: sum.splits)

lemma in_with_no_grad:
  "ev \<in> set (fst (with_no_grad e body)) \<Longrightarrow>
     ev = NoGradEnter \<or> ev = NoGradExit \<or> ev \<in> set (fst body)"
  by (auto simp: with_no_grad_def in_call in_try_finally dest!: in_and_then)

lemma embed_setup_events:
  assumes "ev \<in> set (fst (embed_setup e cfg))"
  shows "setup_call ev \<and> (\<forall>b. ev = LoadDataset b \<longrightarrow> b = (0 < burnin_num cfg))
     \<and> (\<forall>m. ev = QueueNew m \<longrightarrow> m = None)"
  using assms unfolding embed_setup_def Let_def
  by (auto simp: in_call ret_def raise_def setup_call_def dest!: in_and_then in_with_no_grad
      split: if_splits option.splits)


lemma embed_setup_Inr:
  assumes "embed_setup e cfg = (evs, Inr l)"
  shows "\<exists>m pre. get_embed_manifold e (recursion_limit e) cfg None None None = Inr (Some m)
     \<and> l_manifold l = Some m \<and> model_manifold (l_model l) = Some m
     \<and> weight (l_model l)
         = projected e m
             (initialized e (new_weight e (length (objects (l_data l))) (dimension cfg))
                (Some m))
     \<and> shared (l_model l) = (1 < train_threads cfg)
     \<and> (ShareMemory \<in> set pre \<longleftrightarrow> 1 < train_threads cfg)
     \<and> l_log_queue l = MpQueue None
     \<and> l_data l = (if 0 < burnin_num cfg
          then (load_dataset e True)\<lparr>neg_multiplier := burnin_neg_multiplier cfg\<rparr>
          else load_dataset e False)
     \<and> evs = pre @ [ApplyInitialization
                       (new_weight e (length (objects (l_data l))) (dimension cfg)) (Some m),
                     NoGradEnter,
                     Projx m
                       (initialized e
                          (new_weight e (length (objects (l_data l))) (dimension cfg))
                          (Some m)),
                     NoGradExit,
                     RiemannianSGDNew (learning_rate cfg) (Some m)]
     \<and> queue_maxsizes evs = [None]"
  using assms unfolding embed_setup_def Let_def
  by (auto simp: run_eq_Inr split: if_splits option.splits)

lemma hd_embed_setup: "hd (fst (embed_setup e cfg)) = LoadDataset (0 < burnin_num cfg)"
  unfolding embed_setup_def by (simp add: fst_and_then call_def)

lemma embed_setup_nonempty: "fst (embed_setup e cfg) \<noteq> []"
  unfolding embed_setup_def by (simp add: fst_and_then call_def)

lemma spawn_workers_ok:
  "(\<forall>i\<in>set is. raises e (ProcessNew ''train'' (args i)) = None \<and> raises e (ProcessStart i) = None)
   \<Longrightarrow> spawn_workers e args is ths
        = (concat (map (\<lambda>i. [ProcessNew ''train'' (args i), ProcessStart i]) is), ths @ is, None)"
  by (induction "is" arbitrary: ths) (auto simp: Let_def)

lemma spawn_workers_events:
  "spawn_workers e args is ths = (es, ths', r) \<Longrightarrow> ev \<in> set es \<Longrightarrow>
     (\<exists>i. ev = ProcessNew ''train'' (args i)) \<or> (\<exists>t. ev = ProcessStart t)"
  by (induction "is" arbitrary: ths es ths' r)
     (auto simp: Let_def split: option.splits prod.splits)


lemma join_workers_prefix: "prefix (fst (join_workers e ths)) (map ProcessJoin ths)"
  by (induction ths) (auto simp: ret_def fst_and_then call_def split: option.splits)

lemma join_workers_ok:
  "(\<forall>t\<in>set ths. raises e (ProcessJoin t) = None) \<Longrightarrow>
     join_workers e ths = (map ProcessJoin ths, Inr ())"
  by (induction ths) (auto simp: ret_def and_then_def call_def)

lemma join_workers_raises:
  "\<exists>t\<in>set ths. raises e (ProcessJoin t) \<noteq> None \<Longrightarrow> \<exists>x. snd (join_workers e ths) = Inl x"
  by (induction ths) (auto simp: ret_def snd_and_then call_def split: option.splits)

lemma close_workers_ok:
  "(\<forall>t\<in>set ths. raises e (ProcessTerminate t) = None) \<Longrightarrow>
     close_workers e ths = (concat (map (closing e) ths), Inr ())"
  by (induction ths)
     (auto simp: ret_def and_then_def call_def try_except_def closing_def split: option.splits)

lemma close_workers_events:
  "ev \<in> set (fst (close_workers e ths)) \<Longrightarrow>
     (\<exists>t. ev = ProcessClose t) \<or> (\<exists>t. ev = ProcessTerminate t)"
  by (induction ths) (auto simp: ret_def in_call dest!: in_and_then in_try_except)

lemma drain_ok:
  "raises e QueueEmpty = None \<Longrightarrow> raises e QueueGet = None \<Longrightarrow>
   (\<forall>m\<in>set ms. raises e (LogInfo lg m) = None) \<Longrightarrow>
   drain e lg ms = (concat (map (\<lambda>m. [QueueEmpty, QueueGet, LogInfo lg m]) ms) @ [QueueEmpty], Inr ())"
  by (induction ms) (auto simp: and_then_def call_def)

lemma drain_events:
  "ev \<in> set (fst (drain e lg ms)) \<Longrightarrow>
     ev = QueueEmpty \<or> ev = QueueGet \<or> (\<exists>m\<in>set ms. ev = LogInfo lg m)"
  by (induction ms) (auto simp: in_call dest!: in_and_then)

lemma fst_try_finally: "fst (try_finally body fin) = fst body @ fst fin"
  by (cases body; cases fin) (auto simp: try_finally_def split: sum.splits)

lemma snd_try_finally:
  "snd (try_finally body fin) = (case snd fin of Inl x \<Rightarrow> Inl x | Inr u \<Rightarrow> snd body)"
  by (cases body; cases fin) (auto simp: try_finally_def split: sum.splits)

lemma train_in_parent_run:
  "fst (train_in_parent e cfg lg l) = [Train (train_args_of l cfg lg 0), CloseThread True]"
  "snd (train_in_parent e cfg lg l) =
     (case raises e (CloseThread True) of
        Some x \<Rightarrow> Inl x
      | None \<Rightarrow> (case raises e (Train (train_args_of l cfg lg 0)) of
                   Some x \<Rightarrow> Inl x | None \<Rightarrow> Inr ()))"
  by (simp_all add: train_in_parent_def fst_try_finally snd_try_finally call_def
      split: option.splits)

lemma train_in_processes_run:
  assumes "spawn_workers e (train_args_of l cfg lg) [0..<nat (train_threads cfg)] []
             = (es, threads, r)"
      and "\<forall>t\<in>set threads. raises e (ProcessTerminate t) = None"
  shows "fst (train_in_processes e cfg lg l) =
           es @ (case r of Some x \<Rightarrow> [] | None \<Rightarrow> fst (join_workers e threads))
              @ concat (map (closing e) threads) @ [CloseThread True]"
    and "snd (train_in_processes e cfg lg l) =
           (case raises e (CloseThread True) of
              Some x \<Rightarrow> Inl x
            | None \<Rightarrow> (case r of Some x \<Rightarrow> Inl x | None \<Rightarrow> snd (join_workers e threads)))"
  using assms
  by (simp_all add: train_in_processes_def fst_try_finally snd_try_finally close_workers_ok
      fst_and_then snd_and_then call_def split: option.splits)

lemma join_workers_events:
  "ev \<in> set (fst (join_workers e ths)) \<Longrightarrow> \<exists>t. ev = ProcessJoin t"
proof -
  assume a: "ev \<in> set (fst (join_workers e ths))"
  have "set (fst (join_workers e ths)) \<subseteq> set (map ProcessJoin ths)"
    by (rule set_mono_prefix) (rule join_workers_prefix)
  with a have "ev \<in> ProcessJoin ` set ths" by auto
  then show ?thesis by blast
qed

lemma embed_train_events:
  assumes "ev \<in> set (fst (embed_train e cfg lg l))"
  shows "(\<exists>i. ev = ProcessNew ''train'' (train_args_of l cfg lg i)) \<or> (\<exists>t. ev = ProcessStart t)
     \<or> (\<exists>t. ev = ProcessJoin t) \<or> (\<exists>t. ev = ProcessClose t) \<or> (\<exists>t. ev = ProcessTerminate t)
     \<or> ev = Train (train_args_of l cfg lg 0) \<or> ev = CloseThread True"
proof (cases "1 < train_threads cfg")
  case False
  with assms show ?thesis by (auto simp: embed_train_def train_in_parent_run)
next
  case True
  obtain es threads r where
    sp: "spawn_workers e (train_args_of l cfg lg) [0..<nat (train_threads cfg)] [] = (es, threads, r)"
    by (cases "spawn_workers e (train_args_of l cfg lg) [0..<nat (train_threads cfg)] []") auto
  from assms True sp have
    "ev \<in> set es \<or> ev \<in> set (fst (join_workers e threads))
      \<or> ev \<in> set (fst (close_workers e threads)) \<or> ev = CloseThread True"
    by (auto simp: embed_train_def train_in_processes_def fst_try_finally fst_and_then call_def
        split: option.splits sum.splits)
  then show ?thesis
    using spawn_workers_events [OF sp, of ev] join_workers_events [of ev e threads]
      close_workers_events [of ev e threads]
    by blast
qed

lemma embed_run_Inr:
  assumes "embed_setup e cfg = (evs, Inr l)"
  shows "fst (embed e cfg lg) =
           evs @ fst (embed_train e cfg lg l)
             @ (case snd (embed_train e cfg lg l) of
                  Inl x \<Rightarrow> [] | Inr u \<Rightarrow> fst (drain e lg (queued e)))"
    and "snd (embed e cfg lg) =
           (case snd (embed_train e cfg lg l) of
              Inl x \<Rightarrow> Inl x | Inr u \<Rightarrow> snd (drain e lg (queued e)))"
  using assms by (simp_all add: embed_def fst_and_then snd_and_then)

lemma embed_run_Inl:
  assumes "embed_setup e cfg = (evs, Inl x)"
  shows "embed e cfg lg = (evs, Inl x)"
  using assms by (simp add: embed_def and_then_Inl)








lemma filter_closing:
  "filter process_new (concat (map (closing e) ths)) = []"
  "filter process_start (concat (map (closing e) ths)) = []"
  "filter train_call (concat (map (closing e) ths)) = []"
  by (induction ths) (auto simp: closing_def process_new_def process_start_def train_call_def)

lemma train_in_processes_fst:
  assumes "spawn_workers e (train_args_of l cfg lg) [0..<nat (train_threads cfg)] []
             = (es, threads, r)"
  shows "fst (train_in_processes e cfg lg l) =
           es @ (case r of Some x \<Rightarrow> [] | None \<Rightarrow> fst (join_workers e threads))
              @ fst (close_workers e threads)
              @ (case snd (close_workers e threads) of Inl x \<Rightarrow> [] | Inr u \<Rightarrow> [CloseThread True])"
  using assms
  by (simp add: train_in_processes_def fst_try_finally fst_and_then call_def
      split: option.splits sum.splits)



lemma spawned_all:
  assumes "\<forall>i<n. raises e (ProcessNew ''train'' (args i)) = None \<and> raises e (ProcessStart i) = None"
  shows "spawn_workers e args [0..<n] []
        = (concat (map (\<lambda>i. [ProcessNew ''train'' (args i), ProcessStart i]) [0..<n]), [0..<n], None)"
  using spawn_workers_ok [of "[0..<n]" e args "[]"] assms by simp





section \<open>Properties of \<^verbatim>\<open>embed\<close>\<close>

lemma embed_setup_ok:
  assumes r: "\<And>ev. setup_call ev \<Longrightarrow> raises e ev = None"
    and m: "get_embed_manifold e (recursion_limit e) cfg None None None = Inr (Some m)"
  shows "\<exists>evs l. embed_setup e cfg = (evs, Inr l)"
proof -
  have "\<exists>l. snd (embed_setup e cfg) = Inr l"
    unfolding embed_setup_def Let_def
    by (simp add: snd_and_then call_def ret_def with_no_grad_def snd_try_finally r m
        setup_call_def)
  then show ?thesis by (cases "embed_setup e cfg") auto
qed

lemma embed_setup_no_manifold:
  assumes "get_embed_manifold e (recursion_limit e) cfg None None None = Inr None"
  shows "\<exists>evs x. embed_setup e cfg = (evs, Inl x)"
proof (cases "embed_setup e cfg")
  case (Pair evs r)
  show ?thesis
  proof (cases r)
    case (Inl x)
    with Pair show ?thesis by blast
  next
    case (Inr l)
    with Pair have "embed_setup e cfg = (evs, Inr l)" by simp
    from embed_setup_Inr [OF this] assms show ?thesis by auto
  qed
qed

lemma example_manifold:
  assumes "manifold_name cfg = ''Product''"
    and "submanifold_names cfg = [''PoincareBall'', ''PoincareBall'', ''Euclidean'']"
    and "submanifold_shapes cfg = [[15], [15], [20]]"
    and "recursion_limit e = 1000"
    and "np_array e = rectangular_array"
    and "\<And>subs a. product_raises e subs a = None"
  shows "get_embed_manifold e (recursion_limit e) cfg None None None
          = Inr (Some (Product [Some PoincareBall, Some PoincareBall, Some Euclidean]
                         (NdArray [[15], [15], [20]])))"
proof -
  have "''Product'' \<notin> set (submanifold_names cfg)" using assms(2) by simp
  moreover have "np_array e (submanifold_shapes cfg) = Inr (NdArray [[15], [15], [20]])"
    using assms(3,5) by (simp add: rectangular_examples)
  ultimately have "get_embed_manifold e (Suc (Suc 998)) cfg None None None
          = Inr (Some (Product (map leaf_manifold (submanifold_names cfg))
                         (NdArray [[15], [15], [20]])))"
    using assms(1,6) by (intro configured_flat_Product) simp_all
  then show ?thesis using assms(2,4) by (simp add: leaf_manifold_def)
qed

lemma quiet_two_config_setup: "\<exists>evs l. embed_setup quiet two_config = (evs, Inr l)"
proof -
  obtain m where "get_embed_manifold quiet (recursion_limit quiet) two_config None None None = Inr (Some m)"
    using example_manifold [of two_config quiet]
    by (auto simp: two_config_def config_def default_hyper_def quiet_def)
  moreover have "\<And>ev. raises quiet ev = None" by (simp add: quiet_def)
  ultimately show ?thesis using embed_setup_ok by blast
qed




lemma embed_multi_trace:
  assumes su: "embed_setup e cfg = (evs, Inr l)"
    and multi: "1 < train_threads cfg"
    and sp: "spawn_workers e (train_args_of l cfg lg) [0..<nat (train_threads cfg)] []
               = (es, threads, r)"
    and tm: "\<forall>t\<in>set threads. raises e (ProcessTerminate t) = None"
  shows "fst (embed e cfg lg) =
           evs @ es @ (case r of Some x \<Rightarrow> [] | None \<Rightarrow> fst (join_workers e threads))
             @ concat (map (closing e) threads) @ CloseThread True
             # (case snd (embed_train e cfg lg l) of
                  Inl x \<Rightarrow> [] | Inr u \<Rightarrow> fst (drain e lg (queued e)))"
  using multi
  by (simp add: embed_run_Inr(1) [OF su] embed_train_def train_in_processes_run(1) [OF sp tm])


lemma setup_calls_only:
  assumes "\<And>ev. raises e ev \<noteq> None \<Longrightarrow> \<not> setup_call ev"
    and "get_embed_manifold e (recursion_limit e) cfg None None None = Inr (Some m)"
  shows "\<exists>evs l. embed_setup e cfg = (evs, Inr l)"
  by (rule embed_setup_ok [OF _ assms(2)]) (use assms(1) in blast)

lemma interrupted_two_config_setup: "\<exists>evs l. embed_setup interrupted two_config = (evs, Inr l)"
proof -
  obtain m where
    "get_embed_manifold interrupted (recursion_limit interrupted) two_config None None None = Inr (Some m)"
    using example_manifold [of two_config interrupted]
    by (auto simp: two_config_def config_def default_hyper_def interrupted_def quiet_def)
  moreover have "\<And>ev. raises interrupted ev \<noteq> None \<Longrightarrow> \<not> setup_call ev"
    by (auto simp: interrupted_def setup_call_def split: if_splits)
  ultimately show ?thesis using setup_calls_only by blast
qed


lemma isl_and_then: "isl (snd m) \<Longrightarrow> isl (snd (and_then m f))"
  by (cases m) (auto simp: and_then_def split: sum.splits)

lemma embed_raises:
  assumes "embed_setup e cfg = (evs, Inr l)" and "isl (snd (embed_train e cfg lg l))"
  shows "isl (snd (embed e cfg lg))"
  using assms by (cases "snd (embed_train e cfg lg l)") (simp_all add: embed_run_Inr(2))

lemma join_workers_isl:
  "\<exists>t\<in>set ths. raises e (ProcessJoin t) \<noteq> None \<Longrightarrow> isl (snd (join_workers e ths))"
  using join_workers_raises [of ths e] by auto

text \<open>
  Claim C4, as amended. On every run of \<^verbatim>\<open>embed\<close> in which lines 87 to 126 complete and
  no \<^verbatim>\<open>terminate\<close> raises, \<^verbatim>\<open>close_thread(wait_to_finish=True)\<close> is called, in both
  branches, also when \<^verbatim>\<open>train\<close>, a process constructor, a \<^verbatim>\<open>start\<close> or a \<^verbatim>\<open>join\<close> raises; and
  such an exception is not caught: \<^verbatim>\<open>embed\<close> then ends with an exception.
\<close>

theorem embed_finally_closes_eval:
  assumes su: "embed_setup e cfg = (evs, Inr l)"
    and tm: "\<forall>t. raises e (ProcessTerminate t) = None"
  shows "CloseThread True \<in> set (fst (embed e cfg lg))
     \<and> (train_threads cfg \<le> 1 \<and> raises e (Train (train_args_of l cfg lg 0)) \<noteq> None
          \<longrightarrow> isl (snd (embed e cfg lg)))
     \<and> (1 < train_threads cfg
          \<and> spawn_workers e (train_args_of l cfg lg) [0..<nat (train_threads cfg)] []
              = (es, threads, r)
          \<and> (r \<noteq> None \<or> (\<exists>t\<in>set threads. raises e (ProcessJoin t) \<noteq> None))
          \<longrightarrow> isl (snd (embed e cfg lg)))"
proof (intro conjI impI)
  show "CloseThread True \<in> set (fst (embed e cfg lg))"
  proof (cases "1 < train_threads cfg")
    case False
    then show ?thesis
      by (simp add: embed_run_Inr(1) [OF su] embed_train_def train_in_parent_run)
  next
    case True
    obtain es' threads' r' where
      sp: "spawn_workers e (train_args_of l cfg lg) [0..<nat (train_threads cfg)] []
             = (es', threads', r')"
      by (cases "spawn_workers e (train_args_of l cfg lg) [0..<nat (train_threads cfg)] []") auto
    from tm have "\<forall>t\<in>set threads'. raises e (ProcessTerminate t) = None" by simp
    from embed_multi_trace [OF su True sp this] show ?thesis by simp
  qed
next
  assume "train_threads cfg \<le> 1 \<and> raises e (Train (train_args_of l cfg lg 0)) \<noteq> None"
  then have "isl (snd (embed_train e cfg lg l))"
    by (auto simp: embed_train_def train_in_parent_run split: option.splits)
  with su show "isl (snd (embed e cfg lg))" by (rule embed_raises)
next
  assume a: "1 < train_threads cfg
          \<and> spawn_workers e (train_args_of l cfg lg) [0..<nat (train_threads cfg)] []
              = (es, threads, r)
          \<and> (r \<noteq> None \<or> (\<exists>t\<in>set threads. raises e (ProcessJoin t) \<noteq> None))"
  then have sp: "spawn_workers e (train_args_of l cfg lg) [0..<nat (train_threads cfg)] []
              = (es, threads, r)" by simp
  from tm have t: "\<forall>t\<in>set threads. raises e (ProcessTerminate t) = None" by simp
  have "isl (snd (train_in_processes e cfg lg l))"
  proof (cases r)
    case (Some x)
    then show ?thesis
      by (simp add: train_in_processes_run(2) [OF sp t] split: option.splits)
  next
    case None
    with a have "isl (snd (join_workers e threads))" using join_workers_isl by blast
    with None show ?thesis
      by (simp add: train_in_processes_run(2) [OF sp t] split: option.splits)
  qed
  with a have "isl (snd (embed_train e cfg lg l))" by (simp add: embed_train_def)
  with su show "isl (snd (embed e cfg lg))" by (rule embed_raises)
qed

lemma failing_train_single_config_setup:
  "\<exists>evs l. embed_setup failing_train single_config = (evs, Inr l)"
proof -
  obtain m where
    "get_embed_manifold failing_train (recursion_limit failing_train) single_config None None None = Inr (Some m)"
    using example_manifold [of single_config failing_train]
    by (auto simp: single_config_def config_def default_hyper_def failing_train_def quiet_def)
  moreover have "\<And>ev. raises failing_train ev \<noteq> None \<Longrightarrow> \<not> setup_call ev"
    by (auto simp: failing_train_def setup_call_def split: event.splits)
  ultimately show ?thesis using setup_calls_only by blast
qed

theorem embed_finally_closes_eval_witness:
  "train_threads single_config \<le> 1
   \<and> CloseThread True \<in> set (fst (embed failing_train single_config example_logger))
   \<and> isl (snd (embed failing_train single_config example_logger))
   \<and> 1 < train_threads two_config
   \<and> raises interrupted (ProcessJoin 0) \<noteq> None
   \<and> CloseThread True \<in> set (fst (embed interrupted two_config example_logger))
   \<and> isl (snd (embed interrupted two_config example_logger))"
proof -
  obtain evs1 l1 where su1: "embed_setup failing_train single_config = (evs1, Inr l1)"
    using failing_train_single_config_setup by blast
  obtain evs2 l2 where su2: "embed_setup interrupted two_config = (evs2, Inr l2)"
    using interrupted_two_config_setup by blast
  have t: "train_threads two_config = 2" "train_threads single_config = 1"
    by (simp_all add: two_config_def single_config_def config_def default_hyper_def)
  have r1: "\<And>t. raises failing_train (ProcessTerminate t) = None"
    "\<And>a. raises failing_train (Train a) \<noteq> None"
    by (simp_all add: failing_train_def)
  have r2: "\<And>t. raises interrupted (ProcessTerminate t) = None"
    "\<And>t. raises interrupted (ProcessStart t) = None"
    "\<And>a. raises interrupted (ProcessNew ''train'' a) = None"
    "raises interrupted (ProcessJoin 0) \<noteq> None"
    by (simp_all add: interrupted_def)
  let ?args = "train_args_of l2 two_config example_logger"
  have sp: "spawn_workers interrupted ?args [0..<nat (train_threads two_config)] []
      = (concat (map (\<lambda>i. [ProcessNew ''train'' (?args i), ProcessStart i])
                   [0..<nat (train_threads two_config)]),
         [0..<nat (train_threads two_config)], None)"
    by (rule spawned_all) (simp add: r2)
  have j: "\<exists>t\<in>set [0..<nat (train_threads two_config)]. raises interrupted (ProcessJoin t) \<noteq> None"
    using r2(4) by (auto simp: t)
  have tm1: "\<forall>t. raises failing_train (ProcessTerminate t) = None" by (simp add: r1)
  have tm2: "\<forall>t. raises interrupted (ProcessTerminate t) = None" by (simp add: r2)
  have w1: "CloseThread True \<in> set (fst (embed failing_train single_config example_logger))"
    "isl (snd (embed failing_train single_config example_logger))"
    using embed_finally_closes_eval [OF su1 tm1, of example_logger] by (simp_all add: t r1)
  have w2: "CloseThread True \<in> set (fst (embed interrupted two_config example_logger))"
    "isl (snd (embed interrupted two_config example_logger))"
    using embed_finally_closes_eval [OF su2 tm2, where lg = example_logger and r = None
        and threads = "[0..<nat (train_threads two_config)]"
        and es = "concat (map (\<lambda>i. [ProcessNew ''train'' (?args i), ProcessStart i])
                   [0..<nat (train_threads two_config)])"] sp j
    by (simp_all add: t)
  show ?thesis using w1 w2 r2(4) by (simp add: t)
qed

lemma close_thread_not_setup: "CloseThread w \<notin> set (fst (embed_setup e cfg))"
  using embed_setup_events [of "CloseThread w" e cfg] by (auto simp: setup_call_def)

lemma stubborn_two_config_setup: "\<exists>evs l. embed_setup stubborn two_config = (evs, Inr l)"
proof -
  obtain m where
    "get_embed_manifold stubborn (recursion_limit stubborn) two_config None None None = Inr (Some m)"
    using example_manifold [of two_config stubborn]
    by (auto simp: two_config_def config_def default_hyper_def stubborn_def quiet_def)
  moreover have "\<And>ev. raises stubborn ev \<noteq> None \<Longrightarrow> \<not> setup_call ev"
    by (auto simp: stubborn_def setup_call_def split: if_splits)
  ultimately show ?thesis using setup_calls_only by blast
qed

lemma unknown_config_no_manifold:
  "get_embed_manifold quiet (recursion_limit quiet) unknown_config None None None = Inr None"
proof -
  have name: "manifold_name unknown_config = ''Torus''"
    by (simp add: unknown_config_def config_def default_hyper_def)
  have "get_embed_manifold quiet (Suc 999) unknown_config None None None = Inr None"
    by (subst get_embed_manifold.simps) (simp add: Let_def name)
  then show ?thesis by (simp add: quiet_def)
qed

text \<open>
  Claim C4 as it is written fails, in two ways. With a manifold name that the builder
  does not know the manifold is \<open>None\<close> and line 117 raises before either \<^verbatim>\<open>try\<close> is
  entered: the evaluation has been initialised and is never closed. And in the
  \<^verbatim>\<open>finally\<close> block an exception of \<^verbatim>\<open>terminate\<close> leaves the block before \<^verbatim>\<open>close_thread\<close>.
\<close>

theorem embed_close_thread_counterexample:
  "CloseThread True \<notin> set (fst (embed quiet unknown_config example_logger))
   \<and> isl (snd (embed quiet unknown_config example_logger))
   \<and> CloseThread True \<notin> set (fst (embed stubborn two_config example_logger))
   \<and> isl (snd (embed stubborn two_config example_logger))"
proof -
  obtain evs x where su: "embed_setup quiet unknown_config = (evs, Inl x)"
    using embed_setup_no_manifold [OF unknown_config_no_manifold] by blast
  have a: "CloseThread True \<notin> set (fst (embed quiet unknown_config example_logger))"
    "isl (snd (embed quiet unknown_config example_logger))"
    using close_thread_not_setup [of True quiet unknown_config]
    by (simp_all add: embed_run_Inl [OF su] su)
  obtain evs2 l where su2: "embed_setup stubborn two_config = (evs2, Inr l)"
    using stubborn_two_config_setup by blast
  have t2: "train_threads two_config = 2"
    by (simp add: two_config_def config_def default_hyper_def)
  have r: "raises stubborn (ProcessClose 0) = Some (Raised ''ValueError'')"
    "raises stubborn (ProcessTerminate 0) = Some (Raised ''OSError'')"
    "\<And>t. raises stubborn (ProcessStart t) = None"
    "\<And>a. raises stubborn (ProcessNew ''train'' a) = None"
    by (simp_all add: stubborn_def)
  have up: "[0..<2] = [0, Suc 0]" by (simp add: upt_rec numeral_2_eq_2)
  let ?args = "train_args_of l two_config example_logger"
  have sp: "spawn_workers stubborn ?args [0..<nat (train_threads two_config)] []
      = (concat (map (\<lambda>i. [ProcessNew ''train'' (?args i), ProcessStart i])
                   [0..<nat (train_threads two_config)]),
         [0..<nat (train_threads two_config)], None)"
    by (rule spawned_all) (simp add: r)
  have cl: "close_workers stubborn [0, Suc 0]
              = ([ProcessClose 0, ProcessTerminate 0], Inl (Raised ''OSError''))"
    by (simp add: and_then_def try_except_def call_def r)
  have tr: "fst (train_in_processes stubborn two_config example_logger l)
        = [ProcessNew ''train'' (?args 0), ProcessStart 0, ProcessNew ''train'' (?args (Suc 0)),
           ProcessStart (Suc 0)] @ fst (join_workers stubborn [0, Suc 0])
          @ [ProcessClose 0, ProcessTerminate 0]"
    using train_in_processes_fst [OF sp]
    by (simp add: t2 up cl del: join_workers.simps close_workers.simps)
  have sn: "isl (snd (train_in_processes stubborn two_config example_logger l))"
    using sp
    by (simp add: train_in_processes_def snd_try_finally snd_and_then cl t2 up
        del: join_workers.simps close_workers.simps)
  have nj: "CloseThread True \<notin> set (fst (join_workers stubborn [0, Suc 0]))"
    using join_workers_events [of "CloseThread True" stubborn "[0, Suc 0]"] by auto
  have ns: "CloseThread True \<notin> set evs2"
    using close_thread_not_setup [of True stubborn two_config] su2 by simp
  obtain y where y: "snd (train_in_processes stubborn two_config example_logger l) = Inl y"
    using sn by (cases "snd (train_in_processes stubborn two_config example_logger l)") auto
  have b: "CloseThread True \<notin> set (fst (embed stubborn two_config example_logger))"
    "isl (snd (embed stubborn two_config example_logger))"
    using nj ns
    by (simp_all add: embed_run_Inr [OF su2] embed_train_def t2 tr y
        del: join_workers.simps)
  from a b show ?thesis by simp
qed



lemma embed_fst:
  "fst (embed e cfg lg) =
     fst (embed_setup e cfg)
       @ (case snd (embed_setup e cfg) of
            Inl x \<Rightarrow> []
          | Inr l \<Rightarrow> fst (embed_train e cfg lg l)
                     @ (case snd (embed_train e cfg lg l) of
                          Inl x \<Rightarrow> [] | Inr u \<Rightarrow> fst (drain e lg (queued e))))"
  by (simp add: embed_def fst_and_then snd_and_then split: sum.splits)

lemma embed_event_cases:
  assumes "ev \<in> set (fst (embed e cfg lg))"
  shows "ev \<in> set (fst (embed_setup e cfg))
     \<or> (\<exists>evs l. embed_setup e cfg = (evs, Inr l)
           \<and> (ev \<in> set (fst (embed_train e cfg lg l))
                \<or> ev \<in> set (fst (drain e lg (queued e)))))"
proof (cases "embed_setup e cfg")
  case (Pair evs r)
  show ?thesis
  proof (cases r)
    case (Inl x)
    with Pair assms show ?thesis by (simp add: embed_fst)
  next
    case (Inr l)
    with Pair assms show ?thesis by (auto simp: embed_fst split: sum.splits)
  qed
qed

lemma queue_maxsizes_append:
  "queue_maxsizes (xs @ ys) = queue_maxsizes xs @ queue_maxsizes ys"
  by (induction xs rule: queue_maxsizes.induct) simp_all

lemma queue_maxsizes_none:
  "(\<And>m. QueueNew m \<notin> set xs) \<Longrightarrow> queue_maxsizes xs = []"
  by (induction xs rule: queue_maxsizes.induct) auto

lemma logged_append: "logged (xs @ ys) = logged xs @ logged ys"
  by (induction xs rule: logged.induct) simp_all

lemma logged_none: "(\<And>l m. LogInfo l m \<notin> set xs) \<Longrightarrow> logged xs = []"
  by (induction xs rule: logged.induct) auto

lemma logged_drained:
  "logged (concat (map (\<lambda>m. [QueueEmpty, QueueGet, LogInfo lg m]) ms) @ [QueueEmpty])
     = map (Pair lg) ms"
  by (induction ms) simp_all

lemma embed_train_no_queue:
  "QueueNew m \<notin> set (fst (embed_train e cfg lg l))"
  "LogInfo l' m' \<notin> set (fst (embed_train e cfg lg l))"
  using embed_train_events [of "QueueNew m" e cfg lg l]
    embed_train_events [of "LogInfo l' m'" e cfg lg l]
  by auto

lemma drain_no_queue: "QueueNew m \<notin> set (fst (drain e lg ms))"
  using drain_events [of "QueueNew m" e lg ms] by auto

lemma embed_setup_no_log: "LogInfo l m \<notin> set (fst (embed_setup e cfg))"
  using embed_setup_events [of "LogInfo l m" e cfg] by (auto simp: setup_call_def)

lemma embed_setup_queue:
  assumes "embed_setup e cfg = (evs, Inr l)"
  shows "queue_maxsizes evs = [None]" and "l_log_queue l = MpQueue None"
  using embed_setup_Inr [OF assms] by auto

lemma embed_queue_maxsizes:
  assumes su: "embed_setup e cfg = (evs, Inr l)"
  shows "queue_maxsizes (fst (embed e cfg lg)) = [None]"
proof -
  have "queue_maxsizes (fst (embed_train e cfg lg l)) = []"
    by (rule queue_maxsizes_none) (rule embed_train_no_queue)
  moreover have "queue_maxsizes (fst (drain e lg (queued e))) = []"
    by (rule queue_maxsizes_none) (rule drain_no_queue)
  ultimately show ?thesis
    by (simp add: embed_run_Inr(1) [OF su] queue_maxsizes_append embed_setup_queue(1) [OF su]
        split: sum.splits)
qed

lemma embed_drained:
  assumes su: "embed_setup e cfg = (evs, Inr l)"
    and tr: "embed_train e cfg lg l = (es, Inr ())"
    and ok: "raises e QueueEmpty = None" "raises e QueueGet = None"
      "\<forall>m\<in>set (queued e). raises e (LogInfo lg m) = None"
  shows "embed e cfg lg =
           (evs @ es @ concat (map (\<lambda>m. [QueueEmpty, QueueGet, LogInfo lg m]) (queued e))
              @ [QueueEmpty], Inr ())"
    and "logged (fst (embed e cfg lg)) = map (Pair lg) (queued e)"
proof -
  let ?d = "concat (map (\<lambda>m. [QueueEmpty, QueueGet, LogInfo lg m]) (queued e)) @ [QueueEmpty]"
  have d: "drain e lg (queued e) = (?d, Inr ())"
    using ok by (rule drain_ok)
  have f: "fst (embed e cfg lg) = evs @ es @ ?d" and s: "snd (embed e cfg lg) = Inr ()"
    by (simp_all add: embed_run_Inr [OF su] tr d)
  then show "embed e cfg lg = (evs @ es @ ?d, Inr ())"
    by (cases "embed e cfg lg") simp
  have "logged evs = []"
    by (rule logged_none) (use embed_setup_no_log [of _ _ e cfg] su in simp)
  moreover have "logged es = []"
    by (rule logged_none) (use embed_train_no_queue(2) [of _ _ e cfg lg l] tr in simp)
  moreover have "logged (evs @ es @ ?d) = logged evs @ logged es @ logged ?d"
    by (simp only: logged_append)
  ultimately show "logged (fst (embed e cfg lg)) = map (Pair lg) (queued e)"
    unfolding f by (simp only: logged_drained) simp
qed

text \<open>
  Claim C3, as amended. The queue that \<^verbatim>\<open>embed\<close> creates for the log messages is created
  by \<^verbatim>\<open>mp.Queue()\<close> without a maximum size: no call of any run passes one, and when lines
  87 to 126 complete exactly one queue has been created, which is the queue every worker
  receives. When the training branch ends without an exception and the calls on the
  queue and on the logger do not raise, the parent then takes every message that is in
  the queue, oldest first, and logs each through \<^verbatim>\<open>_log.info\<close>, and \<^verbatim>\<open>embed\<close> returns.
\<close>

theorem embed_queue_and_drain:
  "(\<forall>m. QueueNew m \<in> set (fst (embed e cfg lg)) \<longrightarrow> m = None)
   \<and> (embed_setup e cfg = (evs, Inr l) \<longrightarrow>
        queue_maxsizes (fst (embed e cfg lg)) = [None] \<and> l_log_queue l = MpQueue None
        \<and> arg_log_queue (train_args_of l cfg lg i) = MpQueue None)
   \<and> (embed_setup e cfg = (evs, Inr l) \<and> embed_train e cfg lg l = (es, Inr ())
        \<and> raises e QueueEmpty = None \<and> raises e QueueGet = None
        \<and> (\<forall>m\<in>set (queued e). raises e (LogInfo lg m) = None) \<longrightarrow>
        embed e cfg lg =
          (evs @ es @ concat (map (\<lambda>m. [QueueEmpty, QueueGet, LogInfo lg m]) (queued e))
             @ [QueueEmpty], Inr ())
        \<and> logged (fst (embed e cfg lg)) = map (Pair lg) (queued e))"
proof (intro conjI allI impI)
  fix m assume "QueueNew m \<in> set (fst (embed e cfg lg))"
  from embed_event_cases [OF this] show "m = None"
    using embed_setup_events [of "QueueNew m" e cfg] embed_train_no_queue(1) [of m e cfg lg]
      drain_no_queue [of m e lg "queued e"]
    by auto
next
  assume su: "embed_setup e cfg = (evs, Inr l)"
  show "queue_maxsizes (fst (embed e cfg lg)) = [None]"
    by (rule embed_queue_maxsizes [OF su])
  show "l_log_queue l = MpQueue None" by (rule embed_setup_queue(2) [OF su])
  then show "arg_log_queue (train_args_of l cfg lg i) = MpQueue None"
    by (simp add: train_args_of_def)
next
  assume a: "embed_setup e cfg = (evs, Inr l) \<and> embed_train e cfg lg l = (es, Inr ())
        \<and> raises e QueueEmpty = None \<and> raises e QueueGet = None
        \<and> (\<forall>m\<in>set (queued e). raises e (LogInfo lg m) = None)"
  then show "embed e cfg lg =
          (evs @ es @ concat (map (\<lambda>m. [QueueEmpty, QueueGet, LogInfo lg m]) (queued e))
             @ [QueueEmpty], Inr ())"
    using embed_drained(1) by blast
  from a show "logged (fst (embed e cfg lg)) = map (Pair lg) (queued e)"
    using embed_drained(2) by blast
qed


lemma embed_train_quiet:
  assumes q: "\<And>ev. raises e ev = None"
  shows "snd (embed_train e cfg lg l) = Inr ()"
proof (cases "1 < train_threads cfg")
  case False
  then show ?thesis by (simp add: embed_train_def train_in_parent_run q)
next
  case True
  let ?n = "nat (train_threads cfg)"
  let ?args = "train_args_of l cfg lg"
  have sp: "spawn_workers e ?args [0..<?n] []
        = (concat (map (\<lambda>i. [ProcessNew ''train'' (?args i), ProcessStart i]) [0..<?n]),
           [0..<?n], None)"
    by (rule spawned_all) (simp add: q)
  have tm: "\<forall>t\<in>set [0..<?n]. raises e (ProcessTerminate t) = None" by (simp add: q)
  have "join_workers e [0..<?n] = (map ProcessJoin [0..<?n], Inr ())"
    by (rule join_workers_ok) (simp add: q)
  with True show ?thesis
    by (simp add: embed_train_def train_in_processes_run(2) [OF sp tm] q)
qed

theorem embed_queue_and_drain_witness:
  "queue_maxsizes (fst (embed quiet two_config example_logger)) = [None]
   \<and> snd (embed quiet two_config example_logger) = Inr ()
   \<and> queued quiet = [''m1'', ''m2'']
   \<and> logged (fst (embed quiet two_config example_logger))
       = [(example_logger, ''m1''), (example_logger, ''m2'')]"
proof -
  obtain evs l where su: "embed_setup quiet two_config = (evs, Inr l)"
    using quiet_two_config_setup by blast
  have q: "\<And>ev. raises quiet ev = None" by (simp add: quiet_def)
  have "snd (embed_train quiet two_config example_logger l) = Inr ()"
    using q by (rule embed_train_quiet)
  then obtain es where tr: "embed_train quiet two_config example_logger l = (es, Inr ())"
    by (cases "embed_train quiet two_config example_logger l") auto
  have m: "queued quiet = [''m1'', ''m2'']" by (simp add: quiet_def)
  have th: "queue_maxsizes (fst (embed quiet two_config example_logger)) = [None]"
    "embed quiet two_config example_logger =
       (evs @ es @ concat (map (\<lambda>m. [QueueEmpty, QueueGet, LogInfo example_logger m])
                             (queued quiet)) @ [QueueEmpty], Inr ())"
    "logged (fst (embed quiet two_config example_logger)) = map (Pair example_logger) (queued quiet)"
    using embed_queue_and_drain [of quiet two_config example_logger evs l 0 es] su tr q
    by blast+
  from th(2) have "snd (embed quiet two_config example_logger) = Inr ()" by simp
  with th(1) th(3) m show ?thesis by simp
qed

text \<open>
  Claim C3 as it is written fails: the queue of the run below is created without a
  maximum size, so it is not bounded by the script.
\<close>

theorem embed_queue_bound_counterexample:
  "queue_maxsizes (fst (embed quiet two_config example_logger)) = [None]
   \<and> \<not> list_all has_bound (queue_maxsizes (fst (embed quiet two_config example_logger)))"
proof -
  obtain evs l where su: "embed_setup quiet two_config = (evs, Inr l)"
    using quiet_two_config_setup by blast
  show ?thesis
    by (simp add: embed_queue_maxsizes [OF su] has_bound_def)
qed

lemma hd_embed: "hd (fst (embed e cfg lg)) = LoadDataset (0 < burnin_num cfg)"
  using embed_setup_nonempty [of e cfg] hd_embed_setup [of e cfg]
  by (simp add: embed_fst)

lemma embed_load_dataset_events:
  assumes "LoadDataset b \<in> set (fst (embed e cfg lg))"
  shows "b = (0 < burnin_num cfg)"
  using embed_event_cases [OF assms] embed_setup_events [of "LoadDataset b" e cfg]
    embed_train_events [of "LoadDataset b" e cfg lg]
    drain_events [of "LoadDataset b" e lg "queued e"]
  by auto

lemma embed_setup_data:
  assumes "embed_setup e cfg = (evs, Inr l)"
  shows "l_data l = (if 0 < burnin_num cfg
          then (load_dataset e True)\<lparr>neg_multiplier := burnin_neg_multiplier cfg\<rparr>
          else load_dataset e False)"
  using embed_setup_Inr [OF assms] by auto

lemma start_not_setup:
  assumes "process_start ev \<or> train_call ev \<or> process_new ev"
  shows "ev \<notin> set (fst (embed_setup e cfg))"
proof
  assume "ev \<in> set (fst (embed_setup e cfg))"
  then have "setup_call ev" using embed_setup_events by blast
  with assms show False
    by (auto simp: setup_call_def process_start_def train_call_def process_new_def
        split: event.splits)
qed

lemma worker_args:
  assumes "ProcessNew target a \<in> set (fst (embed e cfg lg)) \<or> Train a \<in> set (fst (embed e cfg lg))"
  shows "\<exists>evs l i. embed_setup e cfg = (evs, Inr l) \<and> a = train_args_of l cfg lg i"
proof -
  obtain ev where ev: "ev = ProcessNew target a \<or> ev = Train a"
    and mem: "ev \<in> set (fst (embed e cfg lg))"
    using assms by blast
  from ev have "process_start ev \<or> train_call ev \<or> process_new ev"
    by (auto simp: train_call_def process_new_def)
  then have "ev \<notin> set (fst (embed_setup e cfg))" by (rule start_not_setup)
  moreover have "ev \<notin> set (fst (drain e lg (queued e)))"
    using drain_events [of ev e lg "queued e"] ev by auto
  ultimately obtain evs l where su: "embed_setup e cfg = (evs, Inr l)"
    and tr: "ev \<in> set (fst (embed_train e cfg lg l))"
    using embed_event_cases [OF mem] by blast
  from embed_train_events [OF tr] ev have "\<exists>i. a = train_args_of l cfg lg i" by auto
  with su show ?thesis by blast
qed

lemma in_and_then_call:
  "ev' \<in> set (fst (and_then (call e ev v) f)) \<Longrightarrow> ev' = ev \<or> ev' \<in> set (fst (f v))"
  by (auto simp: fst_and_then call_def split: option.splits)

lemma embed_setup_adjacency:
  assumes "GetAdjacencyDict d \<in> set (fst (embed_setup e cfg))"
  shows "d = (if 0 < burnin_num cfg
          then (load_dataset e True)\<lparr>neg_multiplier := burnin_neg_multiplier cfg\<rparr>
          else load_dataset e False)"
  using assms unfolding embed_setup_def Let_def
  apply -
  apply (drule in_and_then_call)
  apply (auto simp: in_call ret_def raise_def dest!: in_and_then in_with_no_grad
      split: if_splits option.splits)
  done

lemma embed_adjacency:
  assumes "GetAdjacencyDict d \<in> set (fst (embed e cfg lg))"
  shows "d = (if 0 < burnin_num cfg
          then (load_dataset e True)\<lparr>neg_multiplier := burnin_neg_multiplier cfg\<rparr>
          else load_dataset e False)"
  using embed_event_cases [OF assms] embed_setup_adjacency [of d e cfg]
    embed_train_events [of "GetAdjacencyDict d" e cfg lg]
    drain_events [of "GetAdjacencyDict d" e lg "queued e"]
  by auto

lemma embed_setup_reaches_adjacency:
  assumes "raises e (LoadDataset (0 < burnin_num cfg)) = None"
    and "raises e (SetNumThreads 1) = None" and "raises e (QueueNew None) = None"
  shows "GetAdjacencyDict (if 0 < burnin_num cfg
          then (load_dataset e True)\<lparr>neg_multiplier := burnin_neg_multiplier cfg\<rparr>
          else load_dataset e False) \<in> set (fst (embed_setup e cfg))"
  using assms unfolding embed_setup_def Let_def
  by (simp add: fst_and_then call_def)

lemma embed_reaches_adjacency:
  assumes "raises e (LoadDataset (0 < burnin_num cfg)) = None"
    and "raises e (SetNumThreads 1) = None" and "raises e (QueueNew None) = None"
  shows "GetAdjacencyDict (if 0 < burnin_num cfg
          then (load_dataset e True)\<lparr>neg_multiplier := burnin_neg_multiplier cfg\<rparr>
          else load_dataset e False) \<in> set (fst (embed e cfg lg))"
  using embed_setup_reaches_adjacency [OF assms] by (simp add: embed_fst)

lemma worker_data:
  assumes "ProcessNew target a \<in> set (fst (embed e cfg lg)) \<or> Train a \<in> set (fst (embed e cfg lg))"
  shows "arg_data a = (if 0 < burnin_num cfg
          then (load_dataset e True)\<lparr>neg_multiplier := burnin_neg_multiplier cfg\<rparr>
          else load_dataset e False)"
proof -
  from worker_args [OF assms] obtain evs l i where
    su: "embed_setup e cfg = (evs, Inr l)" and a: "a = train_args_of l cfg lg i" by blast
  from a have "arg_data a = l_data l" by (simp add: train_args_of_def)
  with embed_setup_data [OF su] show ?thesis by simp
qed

text \<open>
  Claim C7. The first call of \<^verbatim>\<open>embed\<close> is \<^verbatim>\<open>load_dataset\<close>, with \<^verbatim>\<open>burnin=True\<close> exactly when
  \<^verbatim>\<open>burnin_num > 0\<close>, and no other call of \<^verbatim>\<open>load_dataset\<close> is made. The dataset that
  \<^verbatim>\<open>embed\<close> goes on with is, when \<^verbatim>\<open>burnin_num > 0\<close>, the loaded one with \<^verbatim>\<open>neg_multiplier\<close>
  set to \<^verbatim>\<open>burnin_neg_multiplier\<close>, and when \<^verbatim>\<open>burnin_num <= 0\<close> the loaded one, unchanged:
  this is the dataset handed to \<^verbatim>\<open>get_adjacency_dict\<close> on line 95, a call that is made
  whenever the three calls before it return, the dataset in the argument list of every
  worker, and the dataset \<^verbatim>\<open>data\<close> at the end of the set-up.
\<close>

theorem embed_loads_dataset:
  "hd (fst (embed e cfg lg)) = LoadDataset (0 < burnin_num cfg)
   \<and> (\<forall>b. LoadDataset b \<in> set (fst (embed e cfg lg)) \<longrightarrow> b = (0 < burnin_num cfg))
   \<and> (raises e (LoadDataset (0 < burnin_num cfg)) = None \<and> raises e (SetNumThreads 1) = None
        \<and> raises e (QueueNew None) = None \<longrightarrow>
        (0 < burnin_num cfg \<longrightarrow>
           GetAdjacencyDict ((load_dataset e True)\<lparr>neg_multiplier := burnin_neg_multiplier cfg\<rparr>)
             \<in> set (fst (embed e cfg lg)))
        \<and> (burnin_num cfg \<le> 0 \<longrightarrow>
             GetAdjacencyDict (load_dataset e False) \<in> set (fst (embed e cfg lg))))
   \<and> (\<forall>d. GetAdjacencyDict d \<in> set (fst (embed e cfg lg)) \<longrightarrow>
        (0 < burnin_num cfg \<longrightarrow>
           d = (load_dataset e True)\<lparr>neg_multiplier := burnin_neg_multiplier cfg\<rparr>)
        \<and> (burnin_num cfg \<le> 0 \<longrightarrow> d = load_dataset e False))
   \<and> (\<forall>target a.
        ProcessNew target a \<in> set (fst (embed e cfg lg)) \<or> Train a \<in> set (fst (embed e cfg lg))
        \<longrightarrow>
        (0 < burnin_num cfg \<longrightarrow>
           arg_data a = (load_dataset e True)\<lparr>neg_multiplier := burnin_neg_multiplier cfg\<rparr>)
        \<and> (burnin_num cfg \<le> 0 \<longrightarrow> arg_data a = load_dataset e False))
   \<and> (embed_setup e cfg = (evs, Inr l) \<longrightarrow>
        (0 < burnin_num cfg \<longrightarrow>
           l_data l = (load_dataset e True)\<lparr>neg_multiplier := burnin_neg_multiplier cfg\<rparr>)
        \<and> (burnin_num cfg \<le> 0 \<longrightarrow> l_data l = load_dataset e False)
        \<and> arg_data (train_args_of l cfg lg i) = l_data l)"
proof (intro conjI allI impI)
  show "hd (fst (embed e cfg lg)) = LoadDataset (0 < burnin_num cfg)" by (rule hd_embed)
next
  fix b assume "LoadDataset b \<in> set (fst (embed e cfg lg))"
  then show "b = (0 < burnin_num cfg)" by (rule embed_load_dataset_events)
next
  assume r: "raises e (LoadDataset (0 < burnin_num cfg)) = None \<and> raises e (SetNumThreads 1) = None
        \<and> raises e (QueueNew None) = None"
  and b: "0 < burnin_num cfg"
  from r have "raises e (LoadDataset (0 < burnin_num cfg)) = None"
    "raises e (SetNumThreads 1) = None" "raises e (QueueNew None) = None" by simp_all
  from embed_reaches_adjacency [OF this, of lg] b
  show "GetAdjacencyDict ((load_dataset e True)\<lparr>neg_multiplier := burnin_neg_multiplier cfg\<rparr>)
             \<in> set (fst (embed e cfg lg))" by simp
next
  assume r: "raises e (LoadDataset (0 < burnin_num cfg)) = None \<and> raises e (SetNumThreads 1) = None
        \<and> raises e (QueueNew None) = None"
  and b: "burnin_num cfg \<le> 0"
  from r have "raises e (LoadDataset (0 < burnin_num cfg)) = None"
    "raises e (SetNumThreads 1) = None" "raises e (QueueNew None) = None" by simp_all
  from embed_reaches_adjacency [OF this, of lg] b
  show "GetAdjacencyDict (load_dataset e False) \<in> set (fst (embed e cfg lg))" by simp
next
  fix d assume "GetAdjacencyDict d \<in> set (fst (embed e cfg lg))" and "0 < burnin_num cfg"
  then show "d = (load_dataset e True)\<lparr>neg_multiplier := burnin_neg_multiplier cfg\<rparr>"
    using embed_adjacency [of d e cfg lg] by simp
next
  fix d assume "GetAdjacencyDict d \<in> set (fst (embed e cfg lg))" and "burnin_num cfg \<le> 0"
  then show "d = load_dataset e False"
    using embed_adjacency [of d e cfg lg] by simp
next
  fix target a
  assume "ProcessNew target a \<in> set (fst (embed e cfg lg)) \<or> Train a \<in> set (fst (embed e cfg lg))"
    and "0 < burnin_num cfg"
  then show "arg_data a = (load_dataset e True)\<lparr>neg_multiplier := burnin_neg_multiplier cfg\<rparr>"
    using worker_data [of target a e cfg lg] by simp
next
  fix target a
  assume "ProcessNew target a \<in> set (fst (embed e cfg lg)) \<or> Train a \<in> set (fst (embed e cfg lg))"
    and "burnin_num cfg \<le> 0"
  then show "arg_data a = load_dataset e False"
    using worker_data [of target a e cfg lg] by simp
next
  assume "embed_setup e cfg = (evs, Inr l)" and "0 < burnin_num cfg"
  then show "l_data l = (load_dataset e True)\<lparr>neg_multiplier := burnin_neg_multiplier cfg\<rparr>"
    using embed_setup_data [of e cfg evs l] by simp
next
  assume "embed_setup e cfg = (evs, Inr l)" and "burnin_num cfg \<le> 0"
  then show "l_data l = load_dataset e False"
    using embed_setup_data [of e cfg evs l] by simp
next
  show "arg_data (train_args_of l cfg lg i) = l_data l" by (simp add: train_args_of_def)
qed

theorem embed_loads_dataset_witness:
  "0 < burnin_num two_config
   \<and> neg_multiplier (load_dataset quiet True) = IntNum 10
   \<and> burnin_neg_multiplier two_config = FloatNum 0.1
   \<and> hd (fst (embed quiet two_config example_logger)) = LoadDataset True
   \<and> GetAdjacencyDict
        \<lparr>objects = [''a'', ''b''], neg_multiplier = FloatNum 0.1, loaded_burnin = True\<rparr>
       \<in> set (fst (embed quiet two_config example_logger))
   \<and> burnin_num no_burnin_config \<le> 0
   \<and> hd (fst (embed quiet no_burnin_config example_logger)) = LoadDataset False
   \<and> GetAdjacencyDict
        \<lparr>objects = [''a'', ''b''], neg_multiplier = IntNum 10, loaded_burnin = False\<rparr>
       \<in> set (fst (embed quiet no_burnin_config example_logger))"
proof -
  have b: "burnin_num two_config = 10" "burnin_num no_burnin_config = 0"
    "burnin_neg_multiplier two_config = FloatNum 0.1"
    by (simp_all add: two_config_def no_burnin_config_def config_def default_hyper_def)
  have q: "\<And>ev. raises quiet ev = None" by (simp add: quiet_def)
  have d: "load_dataset quiet True
             = \<lparr>objects = [''a'', ''b''], neg_multiplier = IntNum 10, loaded_burnin = True\<rparr>"
    "load_dataset quiet False
             = \<lparr>objects = [''a'', ''b''], neg_multiplier = IntNum 10, loaded_burnin = False\<rparr>"
    by (simp_all add: quiet_def example_dataset_def)
  show ?thesis
    using embed_loads_dataset [of quiet two_config example_logger]
      embed_loads_dataset [of quiet no_burnin_config example_logger]
    by (simp add: b q d)
qed














end
